theory Spec2Isabelle
  imports Main
begin

section \<open>Identifiers and JavaScript values\<close>

text \<open>
  A block's \<open>clientId\<close> is an opaque identifier. Block attributes hold JavaScript values;
  the reusable block's \<open>ref\<close> attribute is either a number (a persisted post id) or the
  string produced by \<open>uniqueId( 'reusable' )\<close>.
\<close>

type_synonym clientId = nat

datatype js_number = Finite int | NaN | PosInfinity | NegInfinity

datatype js_value = JSUndefined | JSNull | JSBool bool | JSNumber js_number | JSString string

text \<open>\<open>Number.isFinite( v )\<close>: true only for a value of type number that is finite.\<close>

fun Number_isFinite :: "js_value \<Rightarrow> bool" where
  "Number_isFinite (JSNumber (Finite n)) = True"
| "Number_isFinite v = False"

text \<open>JavaScript truthiness, as used by \<open>!! v\<close>.\<close>

fun truthy :: "js_value \<Rightarrow> bool" where
  "truthy JSUndefined = False"
| "truthy JSNull = False"
| "truthy (JSBool b) = b"
| "truthy (JSNumber (Finite n)) = (n \<noteq> 0)"
| "truthy (JSNumber NaN) = False"
| "truthy (JSNumber PosInfinity) = True"
| "truthy (JSNumber NegInfinity) = True"
| "truthy (JSString s) = (s \<noteq> [])"

section \<open>Selection synchronisation between the two editing contexts\<close>

text \<open>
  The block selection of one \<open>core/block-editor\<close> store, as the selectors
  \<open>getBlockSelectionStart\<close> and \<open>getBlockSelectionEnd\<close> expose it (\<open>None\<close> is
  JavaScript's \<open>null\<close>).
\<close>

record block_selection =
  blockSelectionStart :: "clientId option"
  blockSelectionEnd :: "clientId option"

text \<open>
  Modelled from the spec: the reducer of the \<open>core/block-editor\<close> store is not part of
  the sources at hand. The selection host offers \<open>clearSelection()\<close> (the action
  \<open>clearSelectedBlock\<close>), and a selection event replaces the selection range;
  \<open>hasSelectedBlock\<close> tells whether something is selected.
\<close>

definition clearSelectedBlock :: "block_selection \<Rightarrow> block_selection" where
  "clearSelectedBlock s = s\<lparr>blockSelectionStart := None, blockSelectionEnd := None\<rparr>"

definition selectBlock :: "clientId \<Rightarrow> block_selection \<Rightarrow> block_selection" where
  "selectBlock c s = s\<lparr>blockSelectionStart := Some c, blockSelectionEnd := Some c\<rparr>"

definition multiSelect :: "clientId \<Rightarrow> clientId \<Rightarrow> block_selection \<Rightarrow> block_selection" where
  "multiSelect a b s = s\<lparr>blockSelectionStart := Some a, blockSelectionEnd := Some b\<rparr>"

definition hasSelectedBlock :: "block_selection \<Rightarrow> bool" where
  "hasSelectedBlock s = (\<not> (blockSelectionStart s = None \<and> blockSelectionEnd s = None))"

definition no_selection :: block_selection where
  "no_selection = \<lparr>blockSelectionStart = None, blockSelectionEnd = None\<rparr>"

text \<open>
  The state the two observers share: the selection of the enclosing editor (the props
  \<open>blockSelectionStart\<close> and \<open>blockSelectionEnd\<close> of \<open>ReusableBlockEdit\<close>), the
  selection of the embedded editor (the store of \<open>this.registry\<close>), and the instance
  field \<open>this.isSelectingInnerBlock\<close> (\<open>False\<close> when the field is absent).
\<close>

record editing_contexts =
  parent :: block_selection
  child :: block_selection
  isSelectingInnerBlock :: bool

text \<open>
  \<open>ReusableBlockEdit.onSelectedBlockChange\<close>. The dispatch to the embedded registry
  leaves the embedded editor without a selection, so the \<open>SelectionObserver\<close> rendered
  there sees \<open>hasSelectedBlock\<close> false and does not call back (lemma
  \<open>SelectionObserver_after_clear\<close> below).
\<close>

definition onSelectedBlockChange :: "editing_contexts \<Rightarrow> editing_contexts" where
  "onSelectedBlockChange st =
     (if isSelectingInnerBlock st then st\<lparr>isSelectingInnerBlock := False\<rparr>
      else st\<lparr>child := clearSelectedBlock (child st)\<rparr>)"

text \<open>
  \<open>ReusableBlockEdit.componentDidUpdate( prevProps )\<close>; the first argument is the
  selection the component was last rendered with.
\<close>

definition ReusableBlockEdit_componentDidUpdate ::
  "block_selection \<Rightarrow> editing_contexts \<Rightarrow> editing_contexts" where
  "ReusableBlockEdit_componentDidUpdate prevProps st =
     (let hasBlockSelectionChanged =
            (blockSelectionStart (parent st) \<noteq> blockSelectionStart prevProps \<or>
             blockSelectionEnd (parent st) \<noteq> blockSelectionEnd prevProps)
      in if hasBlockSelectionChanged then onSelectedBlockChange st else st)"

text \<open>
  An action dispatched to the enclosing editor's store: the store changes, the component
  is rendered with the new props and \<open>componentDidUpdate\<close> runs with the old ones.
\<close>

definition dispatch_parent ::
  "(block_selection \<Rightarrow> block_selection) \<Rightarrow> editing_contexts \<Rightarrow> editing_contexts" where
  "dispatch_parent act st =
     ReusableBlockEdit_componentDidUpdate (parent st) (st\<lparr>parent := act (parent st)\<rparr>)"

text \<open>\<open>ReusableBlockEdit.onInnerBlockSelected\<close>.\<close>

definition onInnerBlockSelected :: "editing_contexts \<Rightarrow> editing_contexts" where
  "onInnerBlockSelected st =
     dispatch_parent clearSelectedBlock (st\<lparr>isSelectingInnerBlock := True\<rparr>)"

text \<open>
  \<open>SelectionObserver.componentDidUpdate( prevProps )\<close>, with its prop
  \<open>onBlockSelected\<close>; the second argument is \<open>prevProps.hasSelectedBlock\<close>.
\<close>

definition SelectionObserver_componentDidUpdate ::
  "(editing_contexts \<Rightarrow> editing_contexts) \<Rightarrow> bool \<Rightarrow> editing_contexts \<Rightarrow> editing_contexts" where
  "SelectionObserver_componentDidUpdate onBlockSelected prevHasSelectedBlock st =
     (if hasSelectedBlock (child st) \<and> \<not> prevHasSelectedBlock then onBlockSelected st else st)"

text \<open>
  An action dispatched to the embedded editor's store; \<open>ReusableBlockEdit.render\<close> passes
  \<open>this.onInnerBlockSelected\<close> as \<open>onBlockSelected\<close>.
\<close>

definition dispatch_child ::
  "(block_selection \<Rightarrow> block_selection) \<Rightarrow> editing_contexts \<Rightarrow> editing_contexts" where
  "dispatch_child act st =
     SelectionObserver_componentDidUpdate onInnerBlockSelected
       (hasSelectedBlock (child st)) (st\<lparr>child := act (child st)\<rparr>)"

text \<open>Selection events, fired at one of the two contexts.\<close>

datatype selection_event = SelectBlock clientId | MultiSelect clientId clientId | ClearSelectedBlock

fun selection_action :: "selection_event \<Rightarrow> block_selection \<Rightarrow> block_selection" where
  "selection_action (SelectBlock c) = selectBlock c"
| "selection_action (MultiSelect a b) = multiSelect a b"
| "selection_action ClearSelectedBlock = clearSelectedBlock"

datatype context_event = AtParent selection_event | AtChild selection_event

fun fire :: "context_event \<Rightarrow> editing_contexts \<Rightarrow> editing_contexts" where
  "fire (AtParent e) st = dispatch_parent (selection_action e) st"
| "fire (AtChild e) st = dispatch_child (selection_action e) st"

fun fire_all :: "context_event list \<Rightarrow> editing_contexts \<Rightarrow> editing_contexts" where
  "fire_all [] st = st"
| "fire_all (e # es) st = fire_all es (fire e st)"

definition mounted :: editing_contexts where
  "mounted = \<lparr>parent = no_selection, child = no_selection, isSelectingInnerBlock = False\<rparr>"

definition exclusive :: "editing_contexts \<Rightarrow> bool" where
  "exclusive st = (\<not> (hasSelectedBlock (parent st) \<and> hasSelectedBlock (child st)))"

section \<open>The editing session of one reusable block\<close>

text \<open>
  \<open>this.state\<close> of \<open>ReusableBlockEdit\<close>. The counter starts at 0 and grows by one per
  cancel; it is a natural number here (a JavaScript number is exact far beyond any count
  of user actions).
\<close>

record session_state =
  cancelIncrementKey :: nat
  isEditing :: bool

text \<open>The state set by the constructor.\<close>

definition constructed :: session_state where
  "constructed = \<lparr>cancelIncrementKey = 0, isEditing = False\<rparr>"

text \<open>\<open>toggleIsEditing( isEditing )\<close>: \<open>this.setState( { isEditing } )\<close>.\<close>

definition toggleIsEditing :: "bool \<Rightarrow> session_state \<Rightarrow> session_state" where
  "toggleIsEditing b st = st\<lparr>isEditing := b\<rparr>"

definition startEditing :: "session_state \<Rightarrow> session_state" where
  "startEditing = toggleIsEditing True"

definition stopEditing :: "session_state \<Rightarrow> session_state" where
  "stopEditing = toggleIsEditing False"

text \<open>
  \<open>cancelEditing()\<close>: stop editing, then read \<open>cancelIncrementKey\<close> from
  \<open>this.state\<close>, increment the local copy and set it. The first \<open>setState\<close> does not
  touch the key, so the value read is the same whether or not React has applied it yet.
\<close>

definition cancelEditing :: "session_state \<Rightarrow> session_state" where
  "cancelEditing st =
     (let st1 = stopEditing st;
          k = cancelIncrementKey st;
          k' = k + 1
      in st1\<lparr>cancelIncrementKey := k'\<rparr>)"

datatype session_action = Edit | Save | Cancel

fun perform :: "session_action \<Rightarrow> session_state \<Rightarrow> session_state" where
  "perform Edit = startEditing"
| "perform Save = stopEditing"
| "perform Cancel = cancelEditing"

fun perform_all :: "session_action list \<Rightarrow> session_state \<Rightarrow> session_state" where
  "perform_all [] st = st"
| "perform_all (a # as) st = perform_all as (perform a st)"

subsection \<open>Props selected from the stores\<close>

text \<open>
  The entity record of a stored reusable block (\<open>getEntityRecord( 'postType', 'wp_block',
  ref )\<close>), as far as the component reads it.
\<close>

record wp_block =
  post_title :: string
  post_content :: string

text \<open>
  The selectors of the \<open>core\<close> and \<open>core/data\<close> stores the component calls, each already
  applied to its fixed arguments: \<open>getEntityRecord\<close> gives the record or \<open>undefined\<close>
  (\<open>None\<close>), \<open>canUser( 'update', 'blocks', ref )\<close> a boolean or \<open>undefined\<close>.
\<close>

record core_select =
  getEntityRecord :: "js_value \<Rightarrow> wp_block option"
  canUser :: "js_value \<Rightarrow> js_value"
  isResolving :: "js_value \<Rightarrow> bool"

record edit_props =
  isSelected :: bool
  reusableBlock :: "wp_block option"
  isFetching :: bool
  canUpdateBlock :: bool

definition isTemporaryReusableBlock :: "js_value \<Rightarrow> bool" where
  "isTemporaryReusableBlock ref = (\<not> Number_isFinite ref)"

text \<open>
  The \<open>withSelect\<close> mapping of \<open>ReusableBlockEdit\<close>; \<open>selected\<close> is the own prop
  \<open>isSelected\<close>, \<open>ref\<close> is \<open>ownProps.attributes.ref\<close>. The selection props are part of
  \<open>editing_contexts\<close>, the editor settings are passed through unread.
\<close>

definition withSelect :: "core_select \<Rightarrow> bool \<Rightarrow> js_value \<Rightarrow> edit_props" where
  "withSelect select selected ref =
     (let reusableBlock =
            (if \<not> isTemporaryReusableBlock ref then getEntityRecord select ref else None)
      in \<lparr>isSelected = selected,
          reusableBlock = reusableBlock,
          isFetching = isResolving select ref,
          canUpdateBlock =
            (reusableBlock \<noteq> None \<and> \<not> isTemporaryReusableBlock ref \<and> truthy (canUser select ref))\<rparr>)"

subsection \<open>Rendering\<close>

datatype placeholder = Spinner | Unavailable

text \<open>The props of \<open>ReusableBlockEditPanel\<close> other than its three callbacks.\<close>

record edit_panel =
  panel_isEditing :: bool
  isEditDisabled :: bool

text \<open>
  What \<open>render()\<close> returns below the \<open>RegistryProvider\<close>: the \<open>EditorProvider\<close> with its
  key, post and template lock, the edit panel and the indicator when they are rendered, and
  whether the block list is wrapped in \<open>Disabled\<close>.
\<close>

record editor_provider =
  provider_key :: nat
  provider_post :: wp_block
  templateLock :: bool
  editPanel :: "edit_panel option"
  indicator :: "string option"
  listDisabled :: bool

datatype rendering = Placeholder placeholder | EditorProvider editor_provider

definition render :: "edit_props \<Rightarrow> session_state \<Rightarrow> rendering" where
  "render props st =
     (case reusableBlock props of
        None \<Rightarrow> Placeholder (if isFetching props then Spinner else Unavailable)
      | Some post \<Rightarrow>
          EditorProvider
            \<lparr>provider_key = cancelIncrementKey st,
             provider_post = post,
             templateLock = (\<not> isEditing st),
             editPanel =
               (if isSelected props \<or> isEditing st
                then Some \<lparr>panel_isEditing = isEditing st,
                           isEditDisabled = (\<not> canUpdateBlock props)\<rparr>
                else None),
             indicator =
               (if \<not> isSelected props \<and> \<not> isEditing st then Some (post_title post) else None),
             listDisabled = (\<not> isEditing st)\<rparr>)"

text \<open>
  Modelled from the spec: \<open>EditorProvider\<close> and React's reconciliation are not part of the
  sources at hand. The private tree of a mounted provider is seeded from the post it is
  mounted with and is then edited independently; a provider rendered again under the same
  key keeps its instance and its private tree, one rendered under a new key is torn down
  and mounted afresh, and a placeholder unmounts it.
\<close>

record mounted_provider =
  mounted_key :: nat
  privateTree :: string

definition mount :: "editor_provider \<Rightarrow> mounted_provider" where
  "mount e = \<lparr>mounted_key = provider_key e, privateTree = post_content (provider_post e)\<rparr>"

fun reconcile :: "rendering \<Rightarrow> mounted_provider option \<Rightarrow> mounted_provider option" where
  "reconcile (Placeholder p) m = None"
| "reconcile (EditorProvider e) None = Some (mount e)"
| "reconcile (EditorProvider e) (Some m) =
     (if mounted_key m = provider_key e then Some m else Some (mount e))"

section \<open>Blocks\<close>

text \<open>A block object: \<open>clientId\<close>, \<open>name\<close>, \<open>attributes\<close> and \<open>innerBlocks\<close>.\<close>

datatype block =
  Block (clientId: clientId) (name: string) (attributes: "(string \<times> js_value) list")
    (innerBlocks: "block list")

text \<open>\<open>block.attributes[ key ]\<close>; a missing key reads as \<open>undefined\<close>.\<close>

definition attribute :: "block \<Rightarrow> string \<Rightarrow> js_value" where
  "attribute b key = (case map_of (attributes b) key of None \<Rightarrow> JSUndefined | Some v \<Rightarrow> v)"

text \<open>Every \<open>clientId\<close> of a block, its own first, and of a list of blocks.\<close>

fun clientIds_of :: "block \<Rightarrow> clientId list" where
  "clientIds_of (Block c n a bs) = c # concat (map clientIds_of bs)"

definition clientIds_in :: "block list \<Rightarrow> clientId list" where
  "clientIds_in bs = concat (map clientIds_of bs)"

text \<open>A block without its identifiers: name, attributes and the shapes of the children.\<close>

datatype shape = Shape string "(string \<times> js_value) list" "shape list"

fun shape_of :: "block \<Rightarrow> shape" where
  "shape_of (Block c n a bs) = Shape n a (map shape_of bs)"

text \<open>The blocks nested below a block, at any depth.\<close>

fun descendants :: "block \<Rightarrow> block list" where
  "descendants (Block c n a bs) = concat (map (\<lambda>b. b # descendants b) bs)"

subsection \<open>Creating and cloning blocks\<close>

text \<open>
  Modelled from the spec: \<open>createBlock\<close> and \<open>cloneBlock\<close> of the blocks package are not
  part of the sources at hand (only their entries in the package's API list are). A block
  is created with a newly allocated \<open>clientId\<close>, which is never reused: the allocator is a
  counter, the identifier handed out is its value. \<open>createBlock( name, attributes,
  innerBlocks )\<close> gives a block of that name with those attributes and inner blocks.
  \<open>cloneBlock( block )\<close> is a recursive deep copy: the block and every nested descendant
  get a newly allocated \<open>clientId\<close> and are otherwise the same.
\<close>

definition createBlock ::
  "string \<Rightarrow> (string \<times> js_value) list \<Rightarrow> block list \<Rightarrow> nat \<Rightarrow> block \<times> nat" where
  "createBlock n a bs u = (Block u n a bs, Suc u)"

fun cloneBlock :: "block \<Rightarrow> nat \<Rightarrow> block \<times> nat"
  and cloneBlocks :: "block list \<Rightarrow> nat \<Rightarrow> block list \<times> nat" where
  "cloneBlock (Block c n a bs) u =
     (case cloneBlocks bs (Suc u) of (bs', u') \<Rightarrow> (Block u n a bs', u'))"
| "cloneBlocks [] u = ([], u)"
| "cloneBlocks (b # bs) u =
     (case cloneBlock b u of (b', u1) \<Rightarrow>
        case cloneBlocks bs u1 of (bs', u2) \<Rightarrow> (b' # bs', u2))"

subsection \<open>Temporary identifiers\<close>

text \<open>
  lodash's \<open>uniqueId( prefix )\<close>: a global counter is incremented and its decimal
  representation appended to the prefix.
\<close>

definition digit :: "nat \<Rightarrow> char" where
  "digit d = ''0123456789'' ! d"

fun show_nat :: "nat \<Rightarrow> string" where
  "show_nat n = (if n < 10 then [digit n] else show_nat (n div 10) @ [digit (n mod 10)])"

declare show_nat.simps [simp del]

definition uniqueId :: "string \<Rightarrow> nat \<Rightarrow> string \<times> nat" where
  "uniqueId prefix idCounter = (let i = Suc idCounter in (prefix @ show_nat i, i))"

section \<open>The stores the conversion effects read and write\<close>

text \<open>An entry of the editor store's reusable blocks: \<open>{ id, clientId, title }\<close>.\<close>

record reusable_block =
  rb_id :: js_value
  rb_clientId :: clientId
  rb_title :: string

text \<open>
  The blocks known to the \<open>core/block-editor\<close> store by \<open>clientId\<close>, the reusable blocks
  of the \<open>core/editor\<close> store by id, and the two allocators.
\<close>

record stores =
  blocks :: "clientId \<rightharpoonup> block"
  reusableBlocks :: "js_value \<rightharpoonup> reusable_block"
  uuidCounter :: nat
  idCounter :: nat

datatype action =
  ReplaceBlocks "clientId list" "block list"
| ReceiveBlocks "block list"
| ReceiveReusableBlocks "(reusable_block \<times> block) list"
| SaveReusableBlock js_value

text \<open>
  Modelled from the spec: selectors and reducers of the two stores are not part of the
  sources at hand. The document host offers \<open>getBlock( clientId )\<close>, \<open>replaceBlocks(
  targetIds, newNodes )\<close> and \<open>receiveBlocks( nodes )\<close>; the fragment store resolves a
  fragment id or finds nothing. Received blocks become known with all their descendants;
  replaced blocks are removed from the store (the effect re-adds the converted block for
  that reason) and the new ones received. Saving is a request to the server and changes
  nothing here.
\<close>

definition getBlock :: "stores \<Rightarrow> clientId \<Rightarrow> block option" where
  "getBlock st c = blocks st c"

definition getReusableBlock :: "stores \<Rightarrow> js_value \<Rightarrow> reusable_block option" where
  "getReusableBlock st ref = reusableBlocks st ref"

definition by_clientId :: "block list \<Rightarrow> clientId \<rightharpoonup> block" where
  "by_clientId bs = map_of (map (\<lambda>b. (clientId b, b)) bs)"

definition received :: "block list \<Rightarrow> (clientId \<rightharpoonup> block) \<Rightarrow> (clientId \<rightharpoonup> block)" where
  "received bs m = m ++ by_clientId (concat (map descendants bs)) ++ by_clientId bs"

fun reducer :: "action \<Rightarrow> stores \<Rightarrow> stores" where
  "reducer (ReceiveBlocks bs) st = st\<lparr>blocks := received bs (blocks st)\<rparr>"
| "reducer (ReplaceBlocks cs bs) st = st\<lparr>blocks := received bs (blocks st |` (- set cs))\<rparr>"
| "reducer (ReceiveReusableBlocks rs) st =
     st\<lparr>reusableBlocks := reusableBlocks st ++ map_of (map (\<lambda>(r, b). (rb_id r, r)) rs)\<rparr>"
| "reducer (SaveReusableBlock ref) st = st"

section \<open>The conversion effects\<close>

text \<open>Reading a property of \<open>null\<close> throws a \<open>TypeError\<close>.\<close>

datatype error = TypeError

text \<open>What an effect has done when it returns: the actions it dispatched, and the stores.\<close>

record effects =
  dispatched :: "action list"
  store :: stores

definition dispatch :: "action \<Rightarrow> effects \<Rightarrow> effects" where
  "dispatch a e = \<lparr>dispatched = dispatched e @ [a], store = reducer a (store e)\<rparr>"

definition nothing_dispatched :: "stores \<Rightarrow> effects" where
  "nothing_dispatched st = \<lparr>dispatched = [], store = st\<rparr>"

text \<open>\<open>convertBlockToStatic( action, store )\<close>; the first argument is \<open>action.clientId\<close>.\<close>

definition convertBlockToStatic :: "clientId \<Rightarrow> stores \<Rightarrow> error + effects" where
  "convertBlockToStatic action_clientId st =
     (case getBlock st action_clientId of
        None \<Rightarrow> Inl TypeError
      | Some oldBlock \<Rightarrow>
     (case getReusableBlock st (attribute oldBlock ''ref'') of
        None \<Rightarrow> Inl TypeError
      | Some reusableBlock' \<Rightarrow>
     (case getBlock st (rb_clientId reusableBlock') of
        None \<Rightarrow> Inl TypeError
      | Some referencedBlock \<Rightarrow>
          (case (if name referencedBlock = ''core/template''
                 then cloneBlocks (innerBlocks referencedBlock) (uuidCounter st)
                 else (case cloneBlock referencedBlock (uuidCounter st) of
                         (b, u) \<Rightarrow> ([b], u))) of
             (newBlocks, u) \<Rightarrow>
               Inr (dispatch (ReplaceBlocks [clientId oldBlock] newBlocks)
                      (nothing_dispatched (st\<lparr>uuidCounter := u\<rparr>)))))))"

text \<open>
  \<open>convertBlockToReusable( action, store )\<close>; the second argument is \<open>action.clientIds\<close>.
  The selector \<open>getBlocksByClientId\<close> of the block editor's store is not part of the
  sources at hand and nothing is said about it elsewhere, so it is the first argument:
  applied to the stores and the clientIds it gives a list of blocks, or it fails, and the
  effect, which catches nothing, fails with it. For a single clientId that does not
  resolve, \<open>parsedBlock\<close> is \<open>null\<close> and the object literal for \<open>reusableBlock\<close> throws on
  \<open>parsedBlock.clientId\<close>, after \<open>uniqueId\<close> has run and before anything is dispatched;
  the failure is returned as soon as the lookup has found nothing.
\<close>

definition convertBlockToReusable ::
  "(stores \<Rightarrow> clientId list \<Rightarrow> error + block list) \<Rightarrow> clientId list \<Rightarrow> stores \<Rightarrow>
     error + effects" where
  "convertBlockToReusable getBlocksByClientId action_clientIds st =
     (case (if length action_clientIds = 1
            then (case getBlock st (action_clientIds ! 0) of
                    None \<Rightarrow> Inl TypeError
                  | Some parsedBlock \<Rightarrow> Inr (parsedBlock, nothing_dispatched st))
            else (case getBlocksByClientId st action_clientIds of
                    Inl err \<Rightarrow> Inl err
                  | Inr selected \<Rightarrow>
                      (case createBlock ''core/template'' [] selected (uuidCounter st) of
                         (parsedBlock, u) \<Rightarrow>
                           Inr (parsedBlock,
                                dispatch (ReceiveBlocks [parsedBlock])
                                  (nothing_dispatched (st\<lparr>uuidCounter := u\<rparr>)))))) of
        Inl err \<Rightarrow> Inl err
      | Inr (parsedBlock, e0) \<Rightarrow>
          (case uniqueId ''reusable'' (idCounter (store e0)) of
             (i, counter) \<Rightarrow>
               (let reusableBlock =
                      \<lparr>rb_id = JSString i, rb_clientId = clientId parsedBlock,
                       rb_title = ''Untitled Reusable Block''\<rparr>;
                    e1 = dispatch (ReceiveReusableBlocks [(reusableBlock, parsedBlock)])
                           (e0\<lparr>store := (store e0)\<lparr>idCounter := counter\<rparr>\<rparr>);
                    e2 = dispatch (SaveReusableBlock (rb_id reusableBlock)) e1
                in (case createBlock ''core/block'' [(''ref'', rb_id reusableBlock)] []
                           (uuidCounter (store e2)) of
                      (referenceBlock, u) \<Rightarrow>
                        (let e3 = dispatch (ReplaceBlocks action_clientIds [referenceBlock])
                                    (e2\<lparr>store := (store e2)\<lparr>uuidCounter := u\<rparr>\<rparr>)
                         in Inr (dispatch (ReceiveBlocks [parsedBlock]) e3))))))"

text \<open>The blocks an effect put into the tree: those of its last \<open>replaceBlocks\<close>.\<close>

definition replacement :: "action list \<Rightarrow> block list" where
  "replacement as =
     foldl (\<lambda>found a. case a of ReplaceBlocks cs bs \<Rightarrow> bs | _ \<Rightarrow> found) [] as"

text \<open>
  The ids of reusable blocks in use after \<open>uniqueId\<close> has been called \<open>k\<close> times: the
  persisted ids, which are numbers, and the temporary ids handed out so far.
\<close>

fun known_id :: "nat \<Rightarrow> js_value \<Rightarrow> bool" where
  "known_id k (JSNumber n) = True"
| "known_id k (JSString s) = (\<exists>i \<in> {1..k}. s = ''reusable'' @ show_nat i)"
| "known_id k v = False"

section \<open>Synchronising a block list with a template\<close>

text \<open>An entry of a block template: \<open>[ name, attributes, innerBlocksTemplate ]\<close>.\<close>

datatype template = Template string "(string \<times> js_value) list" "template list"

fun template_name :: "template \<Rightarrow> string" where
  "template_name (Template n a ts) = n"

fun template_shape :: "template \<Rightarrow> shape" where
  "template_shape (Template n a ts) = Shape n a (map template_shape ts)"

text \<open>
  Modelled from the spec: \<open>synchronizeBlocksWithTemplate\<close> of the blocks package is not
  part of the sources at hand (only its entry in the package's API list is). Template and
  block list are walked position by position. A block whose name equals the name of the
  template entry at its position is kept as it is, children included. Otherwise a new block
  is created from the entry, with the entry's attributes and with inner blocks created from
  its inner template, and whatever stood at the position is discarded. Blocks beyond the
  template's length are dropped.
\<close>

fun synchronizeBlocksWithTemplate ::
  "block list \<Rightarrow> template list \<Rightarrow> nat \<Rightarrow> block list \<times> nat" where
  "synchronizeBlocksWithTemplate bs [] u = ([], u)"
| "synchronizeBlocksWithTemplate [] (Template n a inner # ts) u =
     (case synchronizeBlocksWithTemplate [] inner u of (cs, u1) \<Rightarrow>
      case createBlock n a cs u1 of (b', u2) \<Rightarrow>
      case synchronizeBlocksWithTemplate [] ts u2 of (rest, u3) \<Rightarrow> (b' # rest, u3))"
| "synchronizeBlocksWithTemplate (b # bs) (Template n a inner # ts) u =
     (if name b = n
      then (case synchronizeBlocksWithTemplate bs ts u of (rest, u1) \<Rightarrow> (b # rest, u1))
      else (case synchronizeBlocksWithTemplate [] inner u of (cs, u1) \<Rightarrow>
            case createBlock n a cs u1 of (b', u2) \<Rightarrow>
            case synchronizeBlocksWithTemplate bs ts u2 of (rest, u3) \<Rightarrow> (b' # rest, u3)))"

section \<open>Example stores\<close>

text \<open>
  The blocks of the effect's tests: a reusable block with id 123 whose content is a test
  block with two inner blocks, and a \<open>core/block\<close> node (clientId 10) referring to it.
\<close>

definition oscar :: block where
  "oscar = Block 21 ''core/test-block'' [(''name'', JSString ''Oscar the Grouch'')] []"

definition cookie_monster :: block where
  "cookie_monster = Block 22 ''core/test-block'' [(''name'', JSString ''Cookie Monster'')] []"

definition big_bird :: block where
  "big_bird =
     Block 20 ''core/test-block'' [(''name'', JSString ''Big Bird'')] [oscar, cookie_monster]"

definition associated_block :: block where
  "associated_block = Block 10 ''core/block'' [(''ref'', JSNumber (Finite 123))] []"

definition my_cool_block :: reusable_block where
  "my_cool_block =
     \<lparr>rb_id = JSNumber (Finite 123), rb_clientId = 20, rb_title = ''My cool block''\<rparr>"

definition test_stores :: stores where
  "test_stores =
     \<lparr>blocks = [10 \<mapsto> associated_block, 20 \<mapsto> big_bird, 21 \<mapsto> oscar,
                22 \<mapsto> cookie_monster],
      reusableBlocks = [JSNumber (Finite 123) \<mapsto> my_cool_block],
      uuidCounter = 30,
      idCounter = 0\<rparr>"

text \<open>
  Two selectors for the examples: one that gives the two inner blocks for their clientIds
  and fails for any other selection, and one that always fails.
\<close>

definition test_selector :: "stores \<Rightarrow> clientId list \<Rightarrow> error + block list" where
  "test_selector st cs = (if cs = [21, 22] then Inr [oscar, cookie_monster] else Inl TypeError)"

definition failing_selector :: "stores \<Rightarrow> clientId list \<Rightarrow> error + block list" where
  "failing_selector st cs = Inl TypeError"


text \<open>
  A \<open>core/template\<close> block (clientId 40) with one paragraph, as the only block known.
\<close>

definition template_block :: block where
  "template_block = Block 40 ''core/template'' [] [Block 41 ''core/paragraph'' [] []]"

definition template_stores :: stores where
  "template_stores =
     \<lparr>blocks = [40 \<mapsto> template_block], reusableBlocks = Map.empty,
      uuidCounter = 50, idCounter = 0\<rparr>"

section \<open>Selection: the observers\<close>

lemma hasSelectedBlock_clear [simp]: "\<not> hasSelectedBlock (clearSelectedBlock s)"
  by (simp add: hasSelectedBlock_def clearSelectedBlock_def)

lemma hasSelectedBlock_select [simp]: "hasSelectedBlock (selectBlock c s)"
  by (simp add: hasSelectedBlock_def selectBlock_def)

lemma hasSelectedBlock_multi [simp]: "hasSelectedBlock (multiSelect a b s)"
  by (simp add: hasSelectedBlock_def multiSelect_def)

lemma SelectionObserver_after_clear:
  "SelectionObserver_componentDidUpdate cb p (st\<lparr>child := clearSelectedBlock c\<rparr>) =
   st\<lparr>child := clearSelectedBlock c\<rparr>"
  by (simp add: SelectionObserver_componentDidUpdate_def)

text \<open>
  A selection event at the enclosing editor, received while the guard is absent, leaves
  the embedded editor without a selection whenever it changes the enclosing selection.
\<close>

lemma parent_event_without_guard:
  "\<not> isSelectingInnerBlock st \<Longrightarrow> exclusive st \<Longrightarrow> exclusive (fire (AtParent e) st)"
  by (cases e)
     (auto simp: exclusive_def dispatch_parent_def ReusableBlockEdit_componentDidUpdate_def
        onSelectedBlockChange_def hasSelectedBlock_def selectBlock_def multiSelect_def
        clearSelectedBlock_def Let_def)

text \<open>
  C1 (selection exclusivity after every settled reaction). The code does not keep it:
  when a block of the embedded editor becomes selected while nothing is selected in the
  enclosing editor, \<open>onInnerBlockSelected\<close> sets the guard, but clearing an empty selection
  changes neither \<open>blockSelectionStart\<close> nor \<open>blockSelectionEnd\<close>, so
  \<open>onSelectedBlockChange\<close> does not run and the guard stays. The next selection in the
  enclosing editor consumes the stale guard instead of clearing the embedded selection,
  and both editors show a selected block. The same happens after an ordinary start: the
  reusable block is selected, an inner block is selected (the guard is set and consumed),
  the inner selection is cleared and an inner block selected again (the guard is set and
  stays), and a block of the enclosing editor is selected.
\<close>

theorem selection_exclusivity_broken:
  "fire_all [AtChild (SelectBlock 1), AtParent (SelectBlock 2)] mounted =
     \<lparr>parent = \<lparr>blockSelectionStart = Some 2, blockSelectionEnd = Some 2\<rparr>,
      child = \<lparr>blockSelectionStart = Some 1, blockSelectionEnd = Some 1\<rparr>,
      isSelectingInnerBlock = False\<rparr> \<and>
   \<not> exclusive (fire_all [AtChild (SelectBlock 1), AtParent (SelectBlock 2)] mounted) \<and>
   \<not> exclusive
       (fire_all [AtParent (SelectBlock 9), AtChild (SelectBlock 1), AtChild ClearSelectedBlock,
                  AtChild (SelectBlock 1), AtParent (SelectBlock 2)] mounted)"
  by (simp add: mounted_def no_selection_def exclusive_def dispatch_parent_def dispatch_child_def
      ReusableBlockEdit_componentDidUpdate_def SelectionObserver_componentDidUpdate_def
      onInnerBlockSelected_def onSelectedBlockChange_def hasSelectedBlock_def selectBlock_def
      clearSelectedBlock_def Let_def)

text \<open>
  C7 (the child-selection guard is one-shot). An action on the embedded selection sets the
  guard, and has the enclosing editor clear its selection, exactly when it takes the
  embedded editor from nothing selected to something selected; otherwise it only changes
  the embedded selection. When the enclosing editor had a selection, the guard is consumed
  by the reaction to that clearing and the embedded selection is kept. The reaction of the
  enclosing editor to a change of its selection clears a present guard and leaves the
  embedded selection alone, and clears the embedded selection when the guard is absent.
\<close>

theorem child_selection_guard_one_shot:
  "(\<not> hasSelectedBlock (child st) \<and> hasSelectedBlock (act (child st)) \<longrightarrow>
      dispatch_child act st =
        dispatch_parent clearSelectedBlock
          (st\<lparr>child := act (child st), isSelectingInnerBlock := True\<rparr>)) \<and>
   (\<not> (\<not> hasSelectedBlock (child st) \<and> hasSelectedBlock (act (child st))) \<longrightarrow>
      dispatch_child act st = st\<lparr>child := act (child st)\<rparr>) \<and>
   (\<not> hasSelectedBlock (child st) \<and> hasSelectedBlock (act (child st)) \<and>
    hasSelectedBlock (parent st) \<longrightarrow>
      dispatch_child act st =
        st\<lparr>child := act (child st), parent := clearSelectedBlock (parent st),
           isSelectingInnerBlock := False\<rparr>) \<and>
   (parent st \<noteq> prevProps \<and> isSelectingInnerBlock st \<longrightarrow>
      ReusableBlockEdit_componentDidUpdate prevProps st = st\<lparr>isSelectingInnerBlock := False\<rparr>) \<and>
   (parent st \<noteq> prevProps \<and> \<not> isSelectingInnerBlock st \<longrightarrow>
      ReusableBlockEdit_componentDidUpdate prevProps st =
        st\<lparr>child := clearSelectedBlock (child st)\<rparr>)"
proof -
  have changed: "parent st \<noteq> prevProps \<Longrightarrow>
      blockSelectionStart (parent st) \<noteq> blockSelectionStart prevProps \<or>
      blockSelectionEnd (parent st) \<noteq> blockSelectionEnd prevProps"
    by (cases "parent st"; cases prevProps) auto
  have set_guard: "\<not> hasSelectedBlock (child st) \<and> hasSelectedBlock (act (child st)) \<longrightarrow>
      dispatch_child act st =
        dispatch_parent clearSelectedBlock
          (st\<lparr>child := act (child st), isSelectingInnerBlock := True\<rparr>)"
    by (simp add: dispatch_child_def SelectionObserver_componentDidUpdate_def
        onInnerBlockSelected_def)
  have no_guard: "\<not> (\<not> hasSelectedBlock (child st) \<and> hasSelectedBlock (act (child st))) \<longrightarrow>
      dispatch_child act st = st\<lparr>child := act (child st)\<rparr>"
    by (auto simp: dispatch_child_def SelectionObserver_componentDidUpdate_def)
  have consumed: "\<not> hasSelectedBlock (child st) \<and> hasSelectedBlock (act (child st)) \<and>
    hasSelectedBlock (parent st) \<longrightarrow>
      dispatch_child act st =
        st\<lparr>child := act (child st), parent := clearSelectedBlock (parent st),
           isSelectingInnerBlock := False\<rparr>"
    by (auto simp: dispatch_child_def SelectionObserver_componentDidUpdate_def
        onInnerBlockSelected_def dispatch_parent_def ReusableBlockEdit_componentDidUpdate_def
        onSelectedBlockChange_def hasSelectedBlock_def clearSelectedBlock_def Let_def)
  have present: "parent st \<noteq> prevProps \<and> isSelectingInnerBlock st \<longrightarrow>
      ReusableBlockEdit_componentDidUpdate prevProps st = st\<lparr>isSelectingInnerBlock := False\<rparr>"
    using changed
    by (auto simp: ReusableBlockEdit_componentDidUpdate_def onSelectedBlockChange_def Let_def)
  have absent: "parent st \<noteq> prevProps \<and> \<not> isSelectingInnerBlock st \<longrightarrow>
      ReusableBlockEdit_componentDidUpdate prevProps st =
        st\<lparr>child := clearSelectedBlock (child st)\<rparr>"
    using changed
    by (auto simp: ReusableBlockEdit_componentDidUpdate_def onSelectedBlockChange_def Let_def)
  from set_guard no_guard consumed present absent show ?thesis by blast
qed

theorem child_selection_guard_one_shot_witness:
  "dispatch_child (selectBlock 1) (mounted\<lparr>parent := selectBlock 7 no_selection\<rparr>) =
     \<lparr>parent = no_selection, child = selectBlock 1 no_selection,
      isSelectingInnerBlock = False\<rparr> \<and>
   dispatch_child (selectBlock 2) (mounted\<lparr>child := selectBlock 1 no_selection\<rparr>) =
     mounted\<lparr>child := selectBlock 2 no_selection\<rparr> \<and>
   ReusableBlockEdit_componentDidUpdate no_selection
       \<lparr>parent = selectBlock 7 no_selection, child = selectBlock 1 no_selection,
        isSelectingInnerBlock = True\<rparr> =
     \<lparr>parent = selectBlock 7 no_selection, child = selectBlock 1 no_selection,
      isSelectingInnerBlock = False\<rparr> \<and>
   ReusableBlockEdit_componentDidUpdate no_selection
       \<lparr>parent = selectBlock 7 no_selection, child = selectBlock 1 no_selection,
        isSelectingInnerBlock = False\<rparr> =
     \<lparr>parent = selectBlock 7 no_selection, child = no_selection,
      isSelectingInnerBlock = False\<rparr>"
  using child_selection_guard_one_shot
          [of "mounted\<lparr>parent := selectBlock 7 no_selection\<rparr>" "selectBlock 1" no_selection]
  by (simp add: mounted_def no_selection_def dispatch_parent_def dispatch_child_def
      ReusableBlockEdit_componentDidUpdate_def SelectionObserver_componentDidUpdate_def
      onInnerBlockSelected_def onSelectedBlockChange_def hasSelectedBlock_def selectBlock_def
      clearSelectedBlock_def Let_def)

section \<open>The editing session\<close>

lemma cancelIncrementKey_perform:
  "cancelIncrementKey (perform a st) = cancelIncrementKey st + (if a = Cancel then 1 else 0)"
  by (cases a)
     (simp_all add: startEditing_def stopEditing_def toggleIsEditing_def cancelEditing_def Let_def)

lemma cancelIncrementKey_perform_all:
  "cancelIncrementKey (perform_all as st) = cancelIncrementKey st + length (filter (\<lambda>a. a = Cancel) as)"
  by (induction as arbitrary: st) (simp_all add: cancelIncrementKey_perform)

text \<open>
  C8 (cancel). From the editing state, \<open>cancelEditing\<close> leaves the session not editing and
  the key larger by exactly one; the provider, mounted under the old key with whatever its
  private tree had become, is mounted afresh by the next rendering, its private tree equal
  to the content of the stored reusable block. Starting and stopping leave the key as it
  is, and over any sequence of actions the key grows by the number of cancels in it.
\<close>

theorem cancelEditing_resets:
  "isEditing st \<and> reusableBlock props = Some post \<and> mounted_key m = cancelIncrementKey st \<longrightarrow>
     \<not> isEditing (cancelEditing st) \<and>
     cancelIncrementKey (cancelEditing st) = cancelIncrementKey st + 1 \<and>
     reconcile (render props (cancelEditing st)) (Some m) =
       Some \<lparr>mounted_key = cancelIncrementKey st + 1, privateTree = post_content post\<rparr> \<and>
     cancelIncrementKey (startEditing st) = cancelIncrementKey st \<and>
     cancelIncrementKey (stopEditing st) = cancelIncrementKey st \<and>
     reconcile (render props (stopEditing st)) (Some m) = Some m \<and>
     cancelIncrementKey (perform_all as st) =
       cancelIncrementKey st + length (filter (\<lambda>a. a = Cancel) as) \<and>
     cancelIncrementKey st \<le> cancelIncrementKey (perform_all as st)"
  by (simp add: cancelIncrementKey_perform_all)
     (simp add: cancelEditing_def stopEditing_def startEditing_def toggleIsEditing_def
        render_def mount_def Let_def)

theorem cancelEditing_resets_witness:
  "cancelEditing \<lparr>cancelIncrementKey = 3, isEditing = True\<rparr> =
     \<lparr>cancelIncrementKey = 4, isEditing = False\<rparr> \<and>
   reconcile
     (render \<lparr>isSelected = True,
              reusableBlock = Some \<lparr>post_title = ''t'', post_content = ''saved''\<rparr>,
              isFetching = False, canUpdateBlock = True\<rparr>
        (cancelEditing \<lparr>cancelIncrementKey = 3, isEditing = True\<rparr>))
     (Some \<lparr>mounted_key = 3, privateTree = ''edited''\<rparr>) =
     Some \<lparr>mounted_key = 4, privateTree = ''saved''\<rparr> \<and>
   cancelIncrementKey
     (perform_all [Edit, Cancel, Edit, Save, Edit, Cancel]
        \<lparr>cancelIncrementKey = 3, isEditing = True\<rparr>) = 5"
  using cancelEditing_resets
    [of "\<lparr>cancelIncrementKey = 3, isEditing = True\<rparr>"
        "\<lparr>isSelected = True,
          reusableBlock = Some \<lparr>post_title = ''t'', post_content = ''saved''\<rparr>,
          isFetching = False, canUpdateBlock = True\<rparr>"
        "\<lparr>post_title = ''t'', post_content = ''saved''\<rparr>"
        "\<lparr>mounted_key = 3, privateTree = ''edited''\<rparr>"
        "[Edit, Cancel, Edit, Save, Edit, Cancel]"]
  by (simp add: cancelEditing_def stopEditing_def startEditing_def toggleIsEditing_def)

section \<open>Temporary references\<close>

text \<open>
  C10 (temporary references). A reference is temporary exactly when its \<open>ref\<close> is not a
  finite number; the ids made by \<open>uniqueId( 'reusable' )\<close> are. For a temporary reference
  the prop \<open>reusableBlock\<close> is undefined whatever \<open>getEntityRecord\<close> would give.
  \<open>canUpdateBlock\<close> holds exactly when the reference is not temporary, the record exists
  and \<open>canUser\<close> gives a truthy value, and whenever the edit panel is rendered its
  \<open>isEditDisabled\<close> is the negation of \<open>canUpdateBlock\<close>.
\<close>

theorem temporary_reference_not_editable:
  "isTemporaryReusableBlock ref = (\<forall>n. ref \<noteq> JSNumber (Finite n)) \<and>
   isTemporaryReusableBlock (JSString (fst (uniqueId ''reusable'' k))) \<and>
   (isTemporaryReusableBlock ref \<longrightarrow> reusableBlock (withSelect select selected ref) = None) \<and>
   canUpdateBlock (withSelect select selected ref) =
     (\<not> isTemporaryReusableBlock ref \<and> getEntityRecord select ref \<noteq> None \<and>
      truthy (canUser select ref)) \<and>
   (render (withSelect select selected ref) session = EditorProvider e \<and>
    editPanel e = Some panel \<longrightarrow>
      isEditDisabled panel = (\<not> canUpdateBlock (withSelect select selected ref)))"
proof -
  have temp: "isTemporaryReusableBlock ref = (\<forall>n. ref \<noteq> JSNumber (Finite n))"
    by (cases ref rule: Number_isFinite.cases) (simp_all add: isTemporaryReusableBlock_def)
  have unique: "isTemporaryReusableBlock (JSString (fst (uniqueId ''reusable'' k)))"
    by (simp add: isTemporaryReusableBlock_def)
  have never: "isTemporaryReusableBlock ref \<longrightarrow>
      reusableBlock (withSelect select selected ref) = None"
    by (simp add: withSelect_def Let_def)
  have can: "canUpdateBlock (withSelect select selected ref) =
     (\<not> isTemporaryReusableBlock ref \<and> getEntityRecord select ref \<noteq> None \<and>
      truthy (canUser select ref))"
    by (auto simp: withSelect_def Let_def)
  have disabled: "render (withSelect select selected ref) session = EditorProvider e \<and>
    editPanel e = Some panel \<longrightarrow>
      isEditDisabled panel = (\<not> canUpdateBlock (withSelect select selected ref))"
    by (auto simp: render_def split: option.splits if_splits)
  from temp unique never can disabled show ?thesis by blast
qed

theorem temporary_reference_not_editable_witness:
  "isTemporaryReusableBlock (JSString ''reusable1'') \<and>
   \<not> isTemporaryReusableBlock (JSNumber (Finite 123)) \<and>
   reusableBlock
     (withSelect \<lparr>getEntityRecord = (\<lambda>r. Some \<lparr>post_title = ''t'', post_content = ''c''\<rparr>),
                  canUser = (\<lambda>r. JSBool True), isResolving = (\<lambda>r. False)\<rparr>
        True (JSString ''reusable1'')) = None \<and>
   render
     (withSelect \<lparr>getEntityRecord = (\<lambda>r. Some \<lparr>post_title = ''t'', post_content = ''c''\<rparr>),
                  canUser = (\<lambda>r. JSUndefined), isResolving = (\<lambda>r. False)\<rparr>
        True (JSNumber (Finite 123))) constructed =
     EditorProvider
       \<lparr>provider_key = 0, provider_post = \<lparr>post_title = ''t'', post_content = ''c''\<rparr>,
        templateLock = True,
        editPanel = Some \<lparr>panel_isEditing = False, isEditDisabled = True\<rparr>,
        indicator = None, listDisabled = True\<rparr>"
  using temporary_reference_not_editable
    [of "JSString ''reusable1''" 0
        "\<lparr>getEntityRecord = (\<lambda>r. Some \<lparr>post_title = ''t'', post_content = ''c''\<rparr>),
          canUser = (\<lambda>r. JSBool True), isResolving = (\<lambda>r. False)\<rparr>" True]
  by (simp add: isTemporaryReusableBlock_def withSelect_def render_def constructed_def Let_def)

section \<open>Cloning\<close>

text \<open>A clone has the shape of the block it was made from.\<close>

lemma clone_shape:
  "shape_of (fst (cloneBlock b u)) = shape_of b"
  "map shape_of (fst (cloneBlocks bs u)) = map shape_of bs"
  by (induction b u and bs u rule: cloneBlock_cloneBlocks.induct)
     (auto split: prod.splits)

text \<open>
  The identifiers of a clone are exactly those the allocator handed out while it was made.
\<close>

lemma clone_clientIds:
  "clientIds_of (fst (cloneBlock b u)) = [u ..< snd (cloneBlock b u)] \<and> u < snd (cloneBlock b u)"
  "clientIds_in (fst (cloneBlocks bs u)) = [u ..< snd (cloneBlocks bs u)] \<and> u \<le> snd (cloneBlocks bs u)"
proof (induction b u and bs u rule: cloneBlock_cloneBlocks.induct)
  case (1 c n a bs u)
  then show ?case
    by (auto simp: clientIds_in_def upt_conv_Cons split: prod.splits)
next
  case (2 u)
  then show ?case by (simp add: clientIds_in_def)
next
  case (3 b bs u)
  obtain b' u1 where b: "cloneBlock b u = (b', u1)" by (cases "cloneBlock b u")
  obtain bs' u2 where bs: "cloneBlocks bs u1 = (bs', u2)" by (cases "cloneBlocks bs u1")
  from 3(1) b have 1: "clientIds_of b' = [u ..< u1]" "u < u1" by auto
  from 3(2)[OF b[symmetric]] b bs have 2: "clientIds_in bs' = [u1 ..< u2]" "u1 \<le> u2" by auto
  have "[u ..< u2] = [u ..< u1] @ [u1 ..< u2]"
    using 1(2) 2(2) by (metis less_imp_le_nat upt_add_eq_append le_Suc_ex)
  then show ?case
    using 1 2 b bs by (simp add: clientIds_in_def)
qed

section \<open>Temporary identifiers are pairwise different\<close>

lemma digit_inj: "a < 10 \<Longrightarrow> b < 10 \<Longrightarrow> digit a = digit b \<Longrightarrow> a = b"
proof -
  assume "a < 10" "b < 10" and eq: "digit a = digit b"
  then have "a \<in> {0, 1, 2, 3, 4, 5, 6, 7, 8, 9}" "b \<in> {0, 1, 2, 3, 4, 5, 6, 7, 8, 9}"
    by auto
  with eq show ?thesis
    by (auto simp: digit_def)
qed

lemma show_nat_nonempty: "show_nat n \<noteq> []"
  by (subst show_nat.simps) simp

lemma show_nat_inj: "show_nat n = show_nat m \<Longrightarrow> n = m"
proof (induction n arbitrary: m rule: show_nat.induct)
  case (1 n)
  show ?case
  proof (cases "n < 10")
    case True
    then have n: "show_nat n = [digit n]" by (subst show_nat.simps) simp
    show ?thesis
    proof (cases "m < 10")
      case m: True
      then have "show_nat m = [digit m]" by (subst show_nat.simps) simp
      with n 1(2) True m show ?thesis by (simp add: digit_inj)
    next
      case False
      then have "show_nat m = show_nat (m div 10) @ [digit (m mod 10)]"
        by (subst show_nat.simps) simp
      with n 1(2) show_nat_nonempty[of "m div 10"] show ?thesis by auto
    qed
  next
    case False
    then have n: "show_nat n = show_nat (n div 10) @ [digit (n mod 10)]"
      by (subst show_nat.simps) simp
    show ?thesis
    proof (cases "m < 10")
      case True
      then have "show_nat m = [digit m]" by (subst show_nat.simps) simp
      with n 1(2) show_nat_nonempty[of "n div 10"] show ?thesis by auto
    next
      case m: False
      then have "show_nat m = show_nat (m div 10) @ [digit (m mod 10)]"
        by (subst show_nat.simps) simp
      with n 1(2) have eq: "show_nat (n div 10) = show_nat (m div 10)"
        "digit (n mod 10) = digit (m mod 10)" by simp_all
      from 1(1)[OF False eq(1)] have "n div 10 = m div 10" .
      moreover from eq(2) have "n mod 10 = m mod 10" by (simp add: digit_inj)
      ultimately show ?thesis by (metis div_mult_mod_eq)
    qed
  qed
qed

section \<open>Lookups in the stores\<close>

lemma uniqueId_unknown:
  assumes "known_id k r"
  shows "r \<noteq> JSString (''reusable'' @ show_nat (Suc k))"
proof
  assume "r = JSString (''reusable'' @ show_nat (Suc k))"
  with assms obtain i where "i \<in> {1..k}" "show_nat (Suc k) = show_nat i" by auto
  then show False using show_nat_inj[of "Suc k" i] by simp
qed

lemma clientIds_of_descendants: "clientIds_of b = clientId b # map clientId (descendants b)"
  by (induction b rule: descendants.induct) (simp add: map_concat comp_def cong: map_cong)

lemma by_clientId_None: "c \<notin> clientId ` set bs \<Longrightarrow> by_clientId bs c = None"
  by (simp add: by_clientId_def map_of_eq_None_iff image_image)

lemma clientIds_in_roots: "clientId ` set bs \<subseteq> set (clientIds_in bs)"
  by (auto simp: clientIds_in_def clientIds_of_descendants)

lemma clientIds_in_descendants:
  "clientId ` set (concat (map descendants bs)) \<subseteq> set (clientIds_in bs)"
  by (auto simp: clientIds_in_def clientIds_of_descendants)

lemma received_other:
  assumes "c \<notin> set (clientIds_in bs)"
  shows "received bs m c = m c"
proof -
  from assms clientIds_in_roots[of bs] have "by_clientId bs c = None"
    by (intro by_clientId_None) blast
  moreover from assms clientIds_in_descendants[of bs]
  have "by_clientId (concat (map descendants bs)) c = None"
    by (intro by_clientId_None) blast
  ultimately show ?thesis
    by (simp add: received_def map_add_def)
qed

lemma received_root: "received [b] m (clientId b) = Some b"
  by (simp add: received_def by_clientId_def)

section \<open>Converting a reusable block to static blocks\<close>

lemma convertBlockToStatic_resolved:
  assumes "getBlock st c = Some oldBlock"
    and "getReusableBlock st (attribute oldBlock ''ref'') = Some rb"
    and "getBlock st (rb_clientId rb) = Some referencedBlock"
    and "cloned =
           (if name referencedBlock = ''core/template''
            then cloneBlocks (innerBlocks referencedBlock) (uuidCounter st)
            else ([fst (cloneBlock referencedBlock (uuidCounter st))],
                  snd (cloneBlock referencedBlock (uuidCounter st))))"
  shows "convertBlockToStatic c st =
           Inr \<lparr>dispatched = [ReplaceBlocks [clientId oldBlock] (fst cloned)],
                store = st\<lparr>uuidCounter := snd cloned,
                          blocks := received (fst cloned) (blocks st |` (- {clientId oldBlock}))\<rparr>\<rparr>"
  using assms
  by (simp add: convertBlockToStatic_def dispatch_def nothing_dispatched_def split: prod.splits)

lemma replacement_single [simp]: "replacement [ReplaceBlocks cs bs] = bs"
  by (simp add: replacement_def)

lemma clientIds_in_single: "clientIds_in [b] = clientIds_of b"
  by (simp add: clientIds_in_def)

lemma clientIds_of_innerBlocks: "set (clientIds_in (innerBlocks b)) \<subseteq> set (clientIds_of b)"
  by (cases b) (auto simp: clientIds_in_def)

text \<open>
  C2 (\<open>toStatic\<close>). When the reference node, the reusable block it refers to and the
  block holding that reusable block's content all resolve, the effect replaces the
  reference node by clones: one per inner block of the content when the content is a
  \<open>core/template\<close> block, otherwise the single clone of the content. The clones have the
  shape of what they were made from; their identifiers, nested ones included, are exactly
  those the allocator handed out during the call, so they are pairwise different and, every
  identifier of the content having come from the allocator before, none of them is an
  identifier of the content.
\<close>

theorem convertBlockToStatic_clones:
  assumes old: "getBlock st c = Some oldBlock"
    and rb: "getReusableBlock st (attribute oldBlock ''ref'') = Some rb"
    and ref: "getBlock st (rb_clientId rb) = Some referencedBlock"
    and alloc: "\<forall>i \<in> set (clientIds_of referencedBlock). i < uuidCounter st"
  shows "case convertBlockToStatic c st of
           Inl err \<Rightarrow> False
         | Inr e \<Rightarrow>
             dispatched e = [ReplaceBlocks [clientId oldBlock] (replacement (dispatched e))] \<and>
             map shape_of (replacement (dispatched e)) =
               (if name referencedBlock = ''core/template''
                then map shape_of (innerBlocks referencedBlock)
                else [shape_of referencedBlock]) \<and>
             length (replacement (dispatched e)) =
               (if name referencedBlock = ''core/template''
                then length (innerBlocks referencedBlock) else 1) \<and>
             clientIds_in (replacement (dispatched e)) =
               [uuidCounter st ..< uuidCounter (store e)] \<and>
             distinct (clientIds_in (replacement (dispatched e))) \<and>
             set (clientIds_in (replacement (dispatched e))) \<inter>
               set (clientIds_of referencedBlock) = {}"
proof -
  define cloned where "cloned =
           (if name referencedBlock = ''core/template''
            then cloneBlocks (innerBlocks referencedBlock) (uuidCounter st)
            else ([fst (cloneBlock referencedBlock (uuidCounter st))],
                  snd (cloneBlock referencedBlock (uuidCounter st))))"
  note e = convertBlockToStatic_resolved[OF old rb ref cloned_def]
  have shape: "map shape_of (fst cloned) =
               (if name referencedBlock = ''core/template''
                then map shape_of (innerBlocks referencedBlock)
                else [shape_of referencedBlock])"
    by (simp add: cloned_def clone_shape)
  have len: "length (fst cloned) =
               (if name referencedBlock = ''core/template''
                then length (innerBlocks referencedBlock) else 1)"
    using arg_cong[OF shape, of length] by (simp split: if_splits)
  have ids: "clientIds_in (fst cloned) = [uuidCounter st ..< snd cloned]"
    by (simp add: cloned_def clone_clientIds clientIds_in_single)
  have disj: "set (clientIds_in (fst cloned)) \<inter> set (clientIds_of referencedBlock) = {}"
    using alloc by (auto simp: ids)
  from shape len ids disj show ?thesis by (simp add: e)
qed


theorem convertBlockToStatic_clones_witness:
  "getBlock test_stores 10 = Some associated_block \<and>
   getReusableBlock test_stores (attribute associated_block ''ref'') = Some my_cool_block \<and>
   getBlock test_stores (rb_clientId my_cool_block) = Some big_bird \<and>
   (case convertBlockToStatic 10 test_stores of
      Inl err \<Rightarrow> False
    | Inr e \<Rightarrow>
        dispatched e =
          [ReplaceBlocks [10]
             [Block 30 ''core/test-block'' [(''name'', JSString ''Big Bird'')]
                [Block 31 ''core/test-block'' [(''name'', JSString ''Oscar the Grouch'')] [],
                 Block 32 ''core/test-block'' [(''name'', JSString ''Cookie Monster'')] []]]] \<and>
        clientIds_in (replacement (dispatched e)) = [30, 31, 32])"
  using convertBlockToStatic_clones [of test_stores 10 associated_block my_cool_block big_bird]
  by (simp add: test_stores_def associated_block_def my_cool_block_def big_bird_def
      oscar_def cookie_monster_def
      getBlock_def getReusableBlock_def attribute_def convertBlockToStatic_def dispatch_def
      nothing_dispatched_def clientIds_in_def)

section \<open>Converting blocks to a reusable block\<close>

text \<open>What the effect dispatches and leaves behind, for one block and for several.\<close>

lemma convertBlockToReusable_single:
  assumes "getBlock st c = Some b"
    and "i = JSString (''reusable'' @ show_nat (Suc (idCounter st)))"
    and "r = \<lparr>rb_id = i, rb_clientId = clientId b, rb_title = ''Untitled Reusable Block''\<rparr>"
    and "referenceBlock = Block (uuidCounter st) ''core/block'' [(''ref'', i)] []"
  shows "convertBlockToReusable getBlocksByClientId [c] st =
           Inr \<lparr>dispatched =
                  [ReceiveReusableBlocks [(r, b)], SaveReusableBlock i,
                   ReplaceBlocks [c] [referenceBlock], ReceiveBlocks [b]],
                store = st\<lparr>idCounter := Suc (idCounter st),
                          reusableBlocks := (reusableBlocks st)(i \<mapsto> r),
                          uuidCounter := Suc (uuidCounter st),
                          blocks := received [b] (received [referenceBlock] (blocks st |` (- {c})))\<rparr>\<rparr>"
  using assms
  by (simp add: convertBlockToReusable_def dispatch_def nothing_dispatched_def createBlock_def
      uniqueId_def Let_def)

lemma convertBlockToReusable_several:
  assumes "length cs \<noteq> 1"
    and "getBlocksByClientId st cs = Inr bs"
    and "parsedBlock = Block (uuidCounter st) ''core/template'' [] bs"
    and "i = JSString (''reusable'' @ show_nat (Suc (idCounter st)))"
    and "r = \<lparr>rb_id = i, rb_clientId = uuidCounter st, rb_title = ''Untitled Reusable Block''\<rparr>"
    and "referenceBlock = Block (Suc (uuidCounter st)) ''core/block'' [(''ref'', i)] []"
  shows "convertBlockToReusable getBlocksByClientId cs st =
           Inr \<lparr>dispatched =
                  [ReceiveBlocks [parsedBlock], ReceiveReusableBlocks [(r, parsedBlock)],
                   SaveReusableBlock i, ReplaceBlocks cs [referenceBlock],
                   ReceiveBlocks [parsedBlock]],
                store = st\<lparr>uuidCounter := Suc (Suc (uuidCounter st)),
                          idCounter := Suc (idCounter st),
                          reusableBlocks := (reusableBlocks st)(i \<mapsto> r),
                          blocks := received [parsedBlock]
                                      (received [referenceBlock]
                                         (received [parsedBlock] (blocks st) |` (- set cs)))\<rparr>\<rparr>"
  using assms
  by (simp add: convertBlockToReusable_def dispatch_def nothing_dispatched_def createBlock_def
      uniqueId_def Let_def)

text \<open>
  Every conversion that returns has advanced the counter of \<open>uniqueId\<close> by one and added
  one reusable block, under the id made from the new counter value.
\<close>

lemma convertBlockToReusable_registers:
  assumes i: "i = JSString (''reusable'' @ show_nat (Suc (idCounter st)))"
  shows "case convertBlockToReusable getBlocksByClientId cs st of
           Inl err \<Rightarrow> True
         | Inr e \<Rightarrow>
             idCounter (store e) = Suc (idCounter st) \<and>
             map_option rb_id (reusableBlocks (store e) i) = Some i \<and>
             (\<forall>r. r \<noteq> i \<longrightarrow> reusableBlocks (store e) r = reusableBlocks st r)"
proof (cases "length cs = 1")
  case True
  then obtain c where cs: "cs = [c]"
    by (cases cs) auto
  show ?thesis
  proof (cases "getBlock st c")
    case None
    with cs show ?thesis by (simp add: convertBlockToReusable_def)
  next
    case (Some b)
    define r where
      "r = \<lparr>rb_id = i, rb_clientId = clientId b, rb_title = ''Untitled Reusable Block''\<rparr>"
    define referenceBlock where
      "referenceBlock = Block (uuidCounter st) ''core/block'' [(''ref'', i)] []"
    show ?thesis
      by (simp add: cs convertBlockToReusable_single[OF Some i r_def referenceBlock_def])
         (simp add: r_def)
  qed
next
  case False
  show ?thesis
  proof (cases "getBlocksByClientId st cs")
    case (Inl err)
    with False show ?thesis by (simp add: convertBlockToReusable_def)
  next
    case (Inr bs)
    define parsedBlock where "parsedBlock = Block (uuidCounter st) ''core/template'' [] bs"
    define r where
      "r = \<lparr>rb_id = i, rb_clientId = uuidCounter st, rb_title = ''Untitled Reusable Block''\<rparr>"
    define referenceBlock where
      "referenceBlock = Block (Suc (uuidCounter st)) ''core/block'' [(''ref'', i)] []"
    show ?thesis
      by (simp add: convertBlockToReusable_several
                      [where getBlocksByClientId = getBlocksByClientId and st = st and cs = cs,
                       OF False Inr parsedBlock_def i r_def referenceBlock_def])
         (simp add: r_def)
  qed
qed

lemma known_id_Suc: "known_id k r \<Longrightarrow> known_id (Suc k) r"
  by (cases "(k, r)" rule: known_id.cases) auto

lemma known_id_uniqueId: "known_id (Suc k) (JSString (''reusable'' @ show_nat (Suc k)))"
  by (auto intro: bexI[of _ "Suc k"])

text \<open>
  C6 (\<open>toReusable\<close>). Given several clientIds (any number but one) for which the selector
  gives blocks, the effect creates a \<open>core/template\<close> block whose inner blocks are those
  very blocks, not clones, and goes on as for a single block. The blocks are replaced by
  a new \<open>core/block\<close> block whose \<open>ref\<close> attribute is the new reusable block's id and
  whose clientId is newly allocated, different from the clientId recorded for the
  reusable block. The id is \<open>reusable\<close> followed by the incremented counter, and the
  counter stays incremented. When all ids in the store are persisted numbers or temporary
  ids handed out earlier, no reusable block has the new id before the conversion, the
  conversion adds exactly the new reusable block, the same holds of the store it leaves,
  and a further conversion gets another id and leaves the new reusable block as it is.
\<close>

theorem convertBlockToReusable_reference:
  assumes known: "\<forall>r. reusableBlocks st r \<noteq> None \<longrightarrow> known_id (idCounter st) r"
    and i: "i = JSString (''reusable'' @ show_nat (Suc (idCounter st)))"
    and t: "parsedBlock = Block (uuidCounter st) ''core/template'' [] bs"
  shows
    "(length cs \<noteq> 1 \<and> getBlocksByClientId st cs = Inr bs \<longrightarrow>
        (case convertBlockToReusable getBlocksByClientId cs st of
           Inl err \<Rightarrow> False
         | Inr e \<Rightarrow>
             dispatched e =
               [ReceiveBlocks [parsedBlock],
                ReceiveReusableBlocks
                  [(\<lparr>rb_id = i, rb_clientId = clientId parsedBlock,
                     rb_title = ''Untitled Reusable Block''\<rparr>, parsedBlock)],
                SaveReusableBlock i,
                ReplaceBlocks cs [Block (Suc (uuidCounter st)) ''core/block'' [(''ref'', i)] []],
                ReceiveBlocks [parsedBlock]] \<and>
             innerBlocks parsedBlock = bs \<and>
             getBlock (store e) (clientId parsedBlock) = Some parsedBlock \<and>
             Suc (uuidCounter st) \<noteq> clientId parsedBlock \<and>
             uuidCounter (store e) = Suc (Suc (uuidCounter st)))) \<and>
     (getBlock st c = Some b \<and> clientId b < uuidCounter st \<longrightarrow>
        (case convertBlockToReusable getBlocksByClientId [c] st of
           Inl err \<Rightarrow> False
         | Inr e \<Rightarrow>
             dispatched e =
               [ReceiveReusableBlocks
                  [(\<lparr>rb_id = i, rb_clientId = clientId b,
                     rb_title = ''Untitled Reusable Block''\<rparr>, b)],
                SaveReusableBlock i,
                ReplaceBlocks [c] [Block (uuidCounter st) ''core/block'' [(''ref'', i)] []],
                ReceiveBlocks [b]] \<and>
             getBlock (store e) (clientId b) = Some b \<and>
             uuidCounter st \<noteq> clientId b \<and>
             uuidCounter (store e) = Suc (uuidCounter st))) \<and>
     getReusableBlock st i = None \<and>
     isTemporaryReusableBlock i \<and>
     (convertBlockToReusable getBlocksByClientId cs st = Inr e \<longrightarrow>
        idCounter (store e) = Suc (idCounter st) \<and>
        (\<exists>r. rb_id r = i \<and> getReusableBlock (store e) i = Some r) \<and>
        (\<forall>r. r \<noteq> i \<longrightarrow> getReusableBlock (store e) r = getReusableBlock st r) \<and>
        (\<forall>r. reusableBlocks (store e) r \<noteq> None \<longrightarrow> known_id (idCounter (store e)) r) \<and>
        (\<forall>cs' e'. convertBlockToReusable getBlocksByClientId cs' (store e) = Inr e' \<longrightarrow>
           getReusableBlock (store e') i = getReusableBlock (store e) i \<and>
           (\<exists>r. rb_id r = JSString (''reusable'' @ show_nat (Suc (Suc (idCounter st)))) \<and>
                rb_id r \<noteq> i \<and> getReusableBlock (store e') (rb_id r) = Some r)))"
proof -
  have several: "length cs \<noteq> 1 \<and> getBlocksByClientId st cs = Inr bs \<longrightarrow>
        (case convertBlockToReusable getBlocksByClientId cs st of
           Inl err \<Rightarrow> False
         | Inr e \<Rightarrow>
             dispatched e =
               [ReceiveBlocks [parsedBlock],
                ReceiveReusableBlocks
                  [(\<lparr>rb_id = i, rb_clientId = clientId parsedBlock,
                     rb_title = ''Untitled Reusable Block''\<rparr>, parsedBlock)],
                SaveReusableBlock i,
                ReplaceBlocks cs [Block (Suc (uuidCounter st)) ''core/block'' [(''ref'', i)] []],
                ReceiveBlocks [parsedBlock]] \<and>
             innerBlocks parsedBlock = bs \<and>
             getBlock (store e) (clientId parsedBlock) = Some parsedBlock \<and>
             Suc (uuidCounter st) \<noteq> clientId parsedBlock \<and>
             uuidCounter (store e) = Suc (Suc (uuidCounter st)))"
  proof
    assume a: "length cs \<noteq> 1 \<and> getBlocksByClientId st cs = Inr bs"
    then have len: "length cs \<noteq> 1" and sel: "getBlocksByClientId st cs = Inr bs"
      by simp_all
    have c: "clientId parsedBlock = uuidCounter st" by (simp add: t)
    show "case convertBlockToReusable getBlocksByClientId cs st of
           Inl err \<Rightarrow> False
         | Inr e \<Rightarrow>
             dispatched e =
               [ReceiveBlocks [parsedBlock],
                ReceiveReusableBlocks
                  [(\<lparr>rb_id = i, rb_clientId = clientId parsedBlock,
                     rb_title = ''Untitled Reusable Block''\<rparr>, parsedBlock)],
                SaveReusableBlock i,
                ReplaceBlocks cs [Block (Suc (uuidCounter st)) ''core/block'' [(''ref'', i)] []],
                ReceiveBlocks [parsedBlock]] \<and>
             innerBlocks parsedBlock = bs \<and>
             getBlock (store e) (clientId parsedBlock) = Some parsedBlock \<and>
             Suc (uuidCounter st) \<noteq> clientId parsedBlock \<and>
             uuidCounter (store e) = Suc (Suc (uuidCounter st))"
      using received_root[of parsedBlock]
            convertBlockToReusable_several
              [where getBlocksByClientId = getBlocksByClientId and st = st and cs = cs,
               OF len sel t i,
               of "\<lparr>rb_id = i, rb_clientId = uuidCounter st,
                     rb_title = ''Untitled Reusable Block''\<rparr>"
                  "Block (Suc (uuidCounter st)) ''core/block'' [(''ref'', i)] []"]
      by (simp add: c getBlock_def) (simp add: t)
  qed
  have single: "getBlock st c = Some b \<and> clientId b < uuidCounter st \<longrightarrow>
        (case convertBlockToReusable getBlocksByClientId [c] st of
           Inl err \<Rightarrow> False
         | Inr e \<Rightarrow>
             dispatched e =
               [ReceiveReusableBlocks
                  [(\<lparr>rb_id = i, rb_clientId = clientId b,
                     rb_title = ''Untitled Reusable Block''\<rparr>, b)],
                SaveReusableBlock i,
                ReplaceBlocks [c] [Block (uuidCounter st) ''core/block'' [(''ref'', i)] []],
                ReceiveBlocks [b]] \<and>
             getBlock (store e) (clientId b) = Some b \<and>
             uuidCounter st \<noteq> clientId b \<and>
             uuidCounter (store e) = Suc (uuidCounter st))"
  proof
    assume a: "getBlock st c = Some b \<and> clientId b < uuidCounter st"
    then have b: "getBlock st c = Some b" by simp
    show "case convertBlockToReusable getBlocksByClientId [c] st of
           Inl err \<Rightarrow> False
         | Inr e \<Rightarrow>
             dispatched e =
               [ReceiveReusableBlocks
                  [(\<lparr>rb_id = i, rb_clientId = clientId b,
                     rb_title = ''Untitled Reusable Block''\<rparr>, b)],
                SaveReusableBlock i,
                ReplaceBlocks [c] [Block (uuidCounter st) ''core/block'' [(''ref'', i)] []],
                ReceiveBlocks [b]] \<and>
             getBlock (store e) (clientId b) = Some b \<and>
             uuidCounter st \<noteq> clientId b \<and>
             uuidCounter (store e) = Suc (uuidCounter st)"
      using a received_root[of b]
            convertBlockToReusable_single
              [OF b i,
               of "\<lparr>rb_id = i, rb_clientId = clientId b,
                     rb_title = ''Untitled Reusable Block''\<rparr>"
                  "Block (uuidCounter st) ''core/block'' [(''ref'', i)] []" getBlocksByClientId]
      by (simp add: getBlock_def)
  qed
  have fresh: "getReusableBlock st i = None"
  proof (rule ccontr)
    assume "getReusableBlock st i \<noteq> None"
    with known have "known_id (idCounter st) i" by (simp add: getReusableBlock_def)
    from uniqueId_unknown[OF this] i show False by simp
  qed
  have temp: "isTemporaryReusableBlock i"
    by (simp add: i isTemporaryReusableBlock_def)
  have after: "convertBlockToReusable getBlocksByClientId cs st = Inr e \<longrightarrow>
        idCounter (store e) = Suc (idCounter st) \<and>
        (\<exists>r. rb_id r = i \<and> getReusableBlock (store e) i = Some r) \<and>
        (\<forall>r. r \<noteq> i \<longrightarrow> getReusableBlock (store e) r = getReusableBlock st r) \<and>
        (\<forall>r. reusableBlocks (store e) r \<noteq> None \<longrightarrow> known_id (idCounter (store e)) r) \<and>
        (\<forall>cs' e'. convertBlockToReusable getBlocksByClientId cs' (store e) = Inr e' \<longrightarrow>
           getReusableBlock (store e') i = getReusableBlock (store e) i \<and>
           (\<exists>r. rb_id r = JSString (''reusable'' @ show_nat (Suc (Suc (idCounter st)))) \<and>
                rb_id r \<noteq> i \<and> getReusableBlock (store e') (rb_id r) = Some r))"
  proof
    assume e: "convertBlockToReusable getBlocksByClientId cs st = Inr e"
    from convertBlockToReusable_registers[OF i, of getBlocksByClientId cs] e
    have counter: "idCounter (store e) = Suc (idCounter st)"
      and r: "map_option rb_id (reusableBlocks (store e) i) = Some i"
      and rbs: "\<forall>r. r \<noteq> i \<longrightarrow> reusableBlocks (store e) r = reusableBlocks st r"
      by simp_all
    have registered: "\<exists>r. rb_id r = i \<and> getReusableBlock (store e) i = Some r"
      using r by (auto simp: getReusableBlock_def)
    have others: "\<forall>r. r \<noteq> i \<longrightarrow> getReusableBlock (store e) r = getReusableBlock st r"
      using rbs by (simp add: getReusableBlock_def)
    have known': "\<forall>r. reusableBlocks (store e) r \<noteq> None \<longrightarrow> known_id (idCounter (store e)) r"
    proof (intro allI impI)
      fix r
      assume in_store: "reusableBlocks (store e) r \<noteq> None"
      show "known_id (idCounter (store e)) r"
      proof (cases "r = i")
        case True
        then show ?thesis
          unfolding counter i by (rule ssubst) (rule known_id_uniqueId)
      next
        case False
        with rbs in_store have "reusableBlocks st r \<noteq> None" by simp
        with known have "known_id (idCounter st) r" by simp
        then show ?thesis unfolding counter by (rule known_id_Suc)
      qed
    qed
    have next_id: "\<forall>cs' e'. convertBlockToReusable getBlocksByClientId cs' (store e) = Inr e' \<longrightarrow>
           getReusableBlock (store e') i = getReusableBlock (store e) i \<and>
           (\<exists>r. rb_id r = JSString (''reusable'' @ show_nat (Suc (Suc (idCounter st)))) \<and>
                rb_id r \<noteq> i \<and> getReusableBlock (store e') (rb_id r) = Some r)"
    proof (intro allI impI)
      fix cs' e'
      assume e': "convertBlockToReusable getBlocksByClientId cs' (store e) = Inr e'"
      define i' where "i' = JSString (''reusable'' @ show_nat (Suc (idCounter (store e))))"
      from convertBlockToReusable_registers[OF i'_def, of getBlocksByClientId cs'] e'
      have r': "map_option rb_id (reusableBlocks (store e') i') = Some i'"
        and rbs': "\<forall>r. r \<noteq> i' \<longrightarrow> reusableBlocks (store e') r = reusableBlocks (store e) r"
        by simp_all
      have i': "i' = JSString (''reusable'' @ show_nat (Suc (Suc (idCounter st))))"
        by (simp add: i'_def counter)
      have differ: "i' \<noteq> i"
        using show_nat_inj[of "Suc (Suc (idCounter st))" "Suc (idCounter st)"]
        unfolding i i' by auto
      from r' obtain r where r: "reusableBlocks (store e') i' = Some r" "rb_id r = i'"
        by auto
      show "getReusableBlock (store e') i = getReusableBlock (store e) i \<and>
           (\<exists>r. rb_id r = JSString (''reusable'' @ show_nat (Suc (Suc (idCounter st)))) \<and>
                rb_id r \<noteq> i \<and> getReusableBlock (store e') (rb_id r) = Some r)"
        using r rbs' differ unfolding i'[symmetric] by (auto simp: getReusableBlock_def)
    qed
    from counter registered others known' next_id
    show "idCounter (store e) = Suc (idCounter st) \<and>
        (\<exists>r. rb_id r = i \<and> getReusableBlock (store e) i = Some r) \<and>
        (\<forall>r. r \<noteq> i \<longrightarrow> getReusableBlock (store e) r = getReusableBlock st r) \<and>
        (\<forall>r. reusableBlocks (store e) r \<noteq> None \<longrightarrow> known_id (idCounter (store e)) r) \<and>
        (\<forall>cs' e'. convertBlockToReusable getBlocksByClientId cs' (store e) = Inr e' \<longrightarrow>
           getReusableBlock (store e') i = getReusableBlock (store e) i \<and>
           (\<exists>r. rb_id r = JSString (''reusable'' @ show_nat (Suc (Suc (idCounter st)))) \<and>
                rb_id r \<noteq> i \<and> getReusableBlock (store e') (rb_id r) = Some r))"
      by blast
  qed
  from several single fresh temp after show ?thesis by blast
qed

theorem convertBlockToReusable_reference_witness:
  "(case convertBlockToReusable test_selector [21, 22] test_stores of
      Inl err \<Rightarrow> False
    | Inr e \<Rightarrow>
        dispatched e =
          [ReceiveBlocks [Block 30 ''core/template'' [] [oscar, cookie_monster]],
           ReceiveReusableBlocks
             [(\<lparr>rb_id = JSString ''reusable1'', rb_clientId = 30,
                rb_title = ''Untitled Reusable Block''\<rparr>,
               Block 30 ''core/template'' [] [oscar, cookie_monster])],
           SaveReusableBlock (JSString ''reusable1''),
           ReplaceBlocks [21, 22]
             [Block 31 ''core/block'' [(''ref'', JSString ''reusable1'')] []],
           ReceiveBlocks [Block 30 ''core/template'' [] [oscar, cookie_monster]]] \<and>
        idCounter (store e) = 1 \<and>
        getReusableBlock (store e) (JSString ''reusable1'') =
          Some \<lparr>rb_id = JSString ''reusable1'', rb_clientId = 30,
                rb_title = ''Untitled Reusable Block''\<rparr>) \<and>
   getReusableBlock test_stores (JSString ''reusable1'') = None"
proof -
  have known: "\<forall>r. reusableBlocks test_stores r \<noteq> None \<longrightarrow>
      known_id (idCounter test_stores) r"
    by (auto simp: test_stores_def split: if_splits)
  have i: "JSString ''reusable1'' =
      JSString (''reusable'' @ show_nat (Suc (idCounter test_stores)))"
    by (simp add: test_stores_def show_nat.simps digit_def)
  have t: "Block 30 ''core/template'' [] [oscar, cookie_monster] =
      Block (uuidCounter test_stores) ''core/template'' [] [oscar, cookie_monster]"
    by (simp add: test_stores_def)
  note reference =
    convertBlockToReusable_reference [OF known i t, of "[21, 22]" test_selector 20 big_bird]
  have fresh: "getReusableBlock test_stores (JSString ''reusable1'') = None"
    using reference[THEN conjunct2, THEN conjunct2, THEN conjunct1] .
  have converted: "case convertBlockToReusable test_selector [21, 22] test_stores of
      Inl err \<Rightarrow> False
    | Inr e \<Rightarrow>
        dispatched e =
          [ReceiveBlocks [Block 30 ''core/template'' [] [oscar, cookie_monster]],
           ReceiveReusableBlocks
             [(\<lparr>rb_id = JSString ''reusable1'', rb_clientId = 30,
                rb_title = ''Untitled Reusable Block''\<rparr>,
               Block 30 ''core/template'' [] [oscar, cookie_monster])],
           SaveReusableBlock (JSString ''reusable1''),
           ReplaceBlocks [21, 22]
             [Block 31 ''core/block'' [(''ref'', JSString ''reusable1'')] []],
           ReceiveBlocks [Block 30 ''core/template'' [] [oscar, cookie_monster]]] \<and>
        idCounter (store e) = 1 \<and>
        getReusableBlock (store e) (JSString ''reusable1'') =
          Some \<lparr>rb_id = JSString ''reusable1'', rb_clientId = 30,
                rb_title = ''Untitled Reusable Block''\<rparr>"
    by (simp add: test_stores_def test_selector_def getBlock_def getReusableBlock_def
        show_nat.simps digit_def convertBlockToReusable_def
        createBlock_def uniqueId_def dispatch_def nothing_dispatched_def Let_def)
  from converted fresh show ?thesis ..
qed

section \<open>From static to reusable and back\<close>

lemma replacement_reusable [simp]:
  "replacement [ReceiveReusableBlocks rs, SaveReusableBlock i, ReplaceBlocks cs bs, ReceiveBlocks bs'] = bs"
  by (simp add: replacement_def)

text \<open>
  C4 (round trip). Converting a block to a reusable block and converting the reference
  node that replaced it back gives blocks of the same shape as the block, except that a
  \<open>core/template\<close> block comes back as its inner blocks: the content of a reusable block
  that is a \<open>core/template\<close> block is taken for the wrapper of several blocks.
\<close>

theorem round_trip_shape:
  assumes node: "getBlock st c = Some node"
    and alloc: "\<forall>i \<in> set (clientIds_of node). i < uuidCounter st"
  shows "case convertBlockToReusable getBlocksByClientId [c] st of
           Inl err \<Rightarrow> False
         | Inr e1 \<Rightarrow>
             (case replacement (dispatched e1) of
                [referenceBlock] \<Rightarrow>
                  (case convertBlockToStatic (clientId referenceBlock) (store e1) of
                     Inl err \<Rightarrow> False
                   | Inr e2 \<Rightarrow>
                       map shape_of (replacement (dispatched e2)) =
                         (if name node = ''core/template''
                          then map shape_of (innerBlocks node)
                          else [shape_of node]))
              | _ \<Rightarrow> False)"
proof -
  define i where "i = JSString (''reusable'' @ show_nat (Suc (idCounter st)))"
  define r where
    "r = \<lparr>rb_id = i, rb_clientId = clientId node, rb_title = ''Untitled Reusable Block''\<rparr>"
  define referenceBlock where
    "referenceBlock = Block (uuidCounter st) ''core/block'' [(''ref'', i)] []"
  define st1 where
    "st1 = st\<lparr>idCounter := Suc (idCounter st),
              reusableBlocks := (reusableBlocks st)(i \<mapsto> r),
              uuidCounter := Suc (uuidCounter st),
              blocks := received [node] (received [referenceBlock] (blocks st |` (- {c})))\<rparr>"
  have e1: "convertBlockToReusable getBlocksByClientId [c] st =
      Inr \<lparr>dispatched =
             [ReceiveReusableBlocks [(r, node)], SaveReusableBlock i,
              ReplaceBlocks [c] [referenceBlock], ReceiveBlocks [node]],
           store = st1\<rparr>"
    unfolding st1_def by (rule convertBlockToReusable_single[OF node i_def r_def referenceBlock_def])
  have u: "uuidCounter st \<notin> set (clientIds_in [node])"
    using alloc by (auto simp: clientIds_in_single)
  have old: "getBlock st1 (clientId referenceBlock) = Some referenceBlock"
    using received_other[OF u] received_root[of referenceBlock]
    by (simp add: getBlock_def st1_def referenceBlock_def)
  have rb: "getReusableBlock st1 (attribute referenceBlock ''ref'') = Some r"
    by (simp add: getReusableBlock_def st1_def referenceBlock_def attribute_def)
  have ref: "getBlock st1 (rb_clientId r) = Some node"
    using received_root[of node] by (simp add: getBlock_def st1_def r_def)
  define cloned where "cloned =
           (if name node = ''core/template''
            then cloneBlocks (innerBlocks node) (uuidCounter st1)
            else ([fst (cloneBlock node (uuidCounter st1))],
                  snd (cloneBlock node (uuidCounter st1))))"
  note e2 = convertBlockToStatic_resolved[OF old rb ref cloned_def]
  have shape: "map shape_of (fst cloned) =
      (if name node = ''core/template'' then map shape_of (innerBlocks node)
       else [shape_of node])"
    by (simp add: cloned_def clone_shape)
  have c: "clientId referenceBlock = uuidCounter st"
    by (simp add: referenceBlock_def)
  from shape show ?thesis
    using e2 by (simp add: e1 c)
qed

theorem round_trip_shape_witness:
  "getBlock test_stores 20 = Some big_bird \<and>
   (case convertBlockToReusable failing_selector [20] test_stores of
      Inl err \<Rightarrow> False
    | Inr e1 \<Rightarrow>
        replacement (dispatched e1) =
          [Block 30 ''core/block'' [(''ref'', JSString ''reusable1'')] []] \<and>
        (case convertBlockToStatic 30 (store e1) of
           Inl err \<Rightarrow> False
         | Inr e2 \<Rightarrow>
             replacement (dispatched e2) =
               [Block 31 ''core/test-block'' [(''name'', JSString ''Big Bird'')]
                  [Block 32 ''core/test-block'' [(''name'', JSString ''Oscar the Grouch'')] [],
                   Block 33 ''core/test-block'' [(''name'', JSString ''Cookie Monster'')] []]] \<and>
             map shape_of (replacement (dispatched e2)) = [shape_of big_bird]))"
proof -
  have node: "getBlock test_stores 20 = Some big_bird"
    by (simp add: test_stores_def getBlock_def)
  have alloc: "\<forall>i \<in> set (clientIds_of big_bird). i < uuidCounter test_stores"
    by (simp add: test_stores_def big_bird_def oscar_def cookie_monster_def)
  from round_trip_shape[OF node alloc] node show ?thesis
    by (simp add: test_stores_def big_bird_def oscar_def cookie_monster_def
        convertBlockToReusable_def convertBlockToStatic_def createBlock_def uniqueId_def
        dispatch_def nothing_dispatched_def Let_def getBlock_def getReusableBlock_def
        attribute_def show_nat.simps digit_def received_def by_clientId_def map_add_def
        replacement_def)
qed

text \<open>
  A \<open>core/template\<close> block converted on its own comes back as its inner blocks, not as
  itself.
\<close>

theorem round_trip_template_unwrapped:
  "getBlock template_stores 40 = Some template_block \<and>
   (case convertBlockToReusable failing_selector [40] template_stores of
      Inl err \<Rightarrow> False
    | Inr e1 \<Rightarrow>
        replacement (dispatched e1) =
          [Block 50 ''core/block'' [(''ref'', JSString ''reusable1'')] []] \<and>
        (case convertBlockToStatic 50 (store e1) of
           Inl err \<Rightarrow> False
         | Inr e2 \<Rightarrow>
             replacement (dispatched e2) = [Block 51 ''core/paragraph'' [] []] \<and>
             map shape_of (replacement (dispatched e2)) \<noteq> [shape_of template_block]))"
  by (simp add: template_stores_def template_block_def
      convertBlockToReusable_def convertBlockToStatic_def createBlock_def uniqueId_def
      dispatch_def nothing_dispatched_def Let_def getBlock_def getReusableBlock_def
      attribute_def show_nat.simps digit_def received_def by_clientId_def map_add_def
      replacement_def)

section \<open>What the conversions do to the stores\<close>

text \<open>
  The effect replaces the reference node itself: after it, the node is no longer known to
  the store, and the clones are.
\<close>

theorem convertBlockToStatic_removes_reference:
  "getBlock test_stores 10 = Some associated_block \<and>
   (case convertBlockToStatic 10 test_stores of
      Inl err \<Rightarrow> False
    | Inr e \<Rightarrow>
        dispatched e =
          [ReplaceBlocks [10]
             [Block 30 ''core/test-block'' [(''name'', JSString ''Big Bird'')]
                [Block 31 ''core/test-block'' [(''name'', JSString ''Oscar the Grouch'')] [],
                 Block 32 ''core/test-block'' [(''name'', JSString ''Cookie Monster'')] []]]] \<and>
        getBlock (store e) 10 = None \<and>
        getBlock (store e) 30 \<noteq> None)"
  by (simp add: test_stores_def associated_block_def my_cool_block_def big_bird_def
      oscar_def cookie_monster_def convertBlockToStatic_def
      dispatch_def nothing_dispatched_def getBlock_def getReusableBlock_def
      attribute_def received_def by_clientId_def map_add_def restrict_map_def)

text \<open>
  C3 (the conversions and the tree). Both effects dispatch \<open>replaceBlocks\<close> themselves.
  \<open>toStatic\<close> replaces the reference node by the clones of the content (of its inner
  blocks when it is a \<open>core/template\<close> block): afterwards the reference node is no longer
  in the store, while the reusable blocks are as before and the block holding the content
  is still the same block under its clientId. \<open>toReusable\<close> replaces the converted block,
  or the several blocks the selector gave, by the new \<open>core/block\<close> node, which is in the
  store afterwards; the converted block, or the \<open>core/template\<close> block holding the
  several blocks unchanged, is re-added by the last \<open>receiveBlocks\<close>, is the same block
  under its clientId and is the content of the new reusable block.
\<close>

theorem conversions_dispatch_replace:
  assumes i: "i = JSString (''reusable'' @ show_nat (Suc (idCounter st)))"
    and t: "parsedBlock = Block (uuidCounter st) ''core/template'' [] bs"
  shows
    "(getBlock st c = Some oldBlock \<and>
      getReusableBlock st (attribute oldBlock ''ref'') = Some rb \<and>
      getBlock st (rb_clientId rb) = Some referencedBlock \<and>
      rb_clientId rb \<noteq> clientId oldBlock \<and> rb_clientId rb < uuidCounter st \<and>
      clientId oldBlock < uuidCounter st \<longrightarrow>
        (case convertBlockToStatic c st of
           Inl err \<Rightarrow> False
         | Inr e \<Rightarrow>
             dispatched e =
               [ReplaceBlocks [clientId oldBlock]
                  (if name referencedBlock = ''core/template''
                   then fst (cloneBlocks (innerBlocks referencedBlock) (uuidCounter st))
                   else [fst (cloneBlock referencedBlock (uuidCounter st))])] \<and>
             getBlock (store e) (clientId oldBlock) = None \<and>
             reusableBlocks (store e) = reusableBlocks st \<and>
             getBlock (store e) (rb_clientId rb) = Some referencedBlock)) \<and>
     (getBlock st c' = Some b \<and> (\<forall>j \<in> set (clientIds_of b). j < uuidCounter st) \<longrightarrow>
        (case convertBlockToReusable getBlocksByClientId [c'] st of
           Inl err \<Rightarrow> False
         | Inr e \<Rightarrow>
             dispatched e =
               [ReceiveReusableBlocks
                  [(\<lparr>rb_id = i, rb_clientId = clientId b,
                     rb_title = ''Untitled Reusable Block''\<rparr>, b)],
                SaveReusableBlock i,
                ReplaceBlocks [c'] [Block (uuidCounter st) ''core/block'' [(''ref'', i)] []],
                ReceiveBlocks [b]] \<and>
             getBlock (store e) (uuidCounter st) =
               Some (Block (uuidCounter st) ''core/block'' [(''ref'', i)] []) \<and>
             getBlock (store e) (clientId b) = Some b \<and>
             getReusableBlock (store e) i =
               Some \<lparr>rb_id = i, rb_clientId = clientId b,
                     rb_title = ''Untitled Reusable Block''\<rparr>)) \<and>
     (length cs \<noteq> 1 \<and> getBlocksByClientId st cs = Inr bs \<and>
      (\<forall>j \<in> set (clientIds_in bs). j < uuidCounter st) \<longrightarrow>
        (case convertBlockToReusable getBlocksByClientId cs st of
           Inl err \<Rightarrow> False
         | Inr e \<Rightarrow>
             dispatched e =
               [ReceiveBlocks [parsedBlock],
                ReceiveReusableBlocks
                  [(\<lparr>rb_id = i, rb_clientId = uuidCounter st,
                     rb_title = ''Untitled Reusable Block''\<rparr>, parsedBlock)],
                SaveReusableBlock i,
                ReplaceBlocks cs [Block (Suc (uuidCounter st)) ''core/block'' [(''ref'', i)] []],
                ReceiveBlocks [parsedBlock]] \<and>
             innerBlocks parsedBlock = bs \<and>
             getBlock (store e) (Suc (uuidCounter st)) =
               Some (Block (Suc (uuidCounter st)) ''core/block'' [(''ref'', i)] []) \<and>
             getBlock (store e) (uuidCounter st) = Some parsedBlock \<and>
             getReusableBlock (store e) i =
               Some \<lparr>rb_id = i, rb_clientId = uuidCounter st,
                     rb_title = ''Untitled Reusable Block''\<rparr>))"
proof -
  have static: "getBlock st c = Some oldBlock \<and>
      getReusableBlock st (attribute oldBlock ''ref'') = Some rb \<and>
      getBlock st (rb_clientId rb) = Some referencedBlock \<and>
      rb_clientId rb \<noteq> clientId oldBlock \<and> rb_clientId rb < uuidCounter st \<and>
      clientId oldBlock < uuidCounter st \<longrightarrow>
        (case convertBlockToStatic c st of
           Inl err \<Rightarrow> False
         | Inr e \<Rightarrow>
             dispatched e =
               [ReplaceBlocks [clientId oldBlock]
                  (if name referencedBlock = ''core/template''
                   then fst (cloneBlocks (innerBlocks referencedBlock) (uuidCounter st))
                   else [fst (cloneBlock referencedBlock (uuidCounter st))])] \<and>
             getBlock (store e) (clientId oldBlock) = None \<and>
             reusableBlocks (store e) = reusableBlocks st \<and>
             getBlock (store e) (rb_clientId rb) = Some referencedBlock)"
  proof
    assume a: "getBlock st c = Some oldBlock \<and>
      getReusableBlock st (attribute oldBlock ''ref'') = Some rb \<and>
      getBlock st (rb_clientId rb) = Some referencedBlock \<and>
      rb_clientId rb \<noteq> clientId oldBlock \<and> rb_clientId rb < uuidCounter st \<and>
      clientId oldBlock < uuidCounter st"
    define cloned where "cloned =
           (if name referencedBlock = ''core/template''
            then cloneBlocks (innerBlocks referencedBlock) (uuidCounter st)
            else ([fst (cloneBlock referencedBlock (uuidCounter st))],
                  snd (cloneBlock referencedBlock (uuidCounter st))))"
    from a have a1: "getBlock st c = Some oldBlock"
      and a2: "getReusableBlock st (attribute oldBlock ''ref'') = Some rb"
      and a3: "getBlock st (rb_clientId rb) = Some referencedBlock"
      by simp_all
    have e: "convertBlockToStatic c st =
           Inr \<lparr>dispatched = [ReplaceBlocks [clientId oldBlock] (fst cloned)],
                store = st\<lparr>uuidCounter := snd cloned,
                          blocks := received (fst cloned) (blocks st |` (- {clientId oldBlock}))\<rparr>\<rparr>"
      by (rule convertBlockToStatic_resolved[OF a1 a2 a3 cloned_def])
    have clones: "fst cloned =
        (if name referencedBlock = ''core/template''
         then fst (cloneBlocks (innerBlocks referencedBlock) (uuidCounter st))
         else [fst (cloneBlock referencedBlock (uuidCounter st))])"
      by (simp add: cloned_def)
    have ids: "clientIds_in (fst cloned) = [uuidCounter st ..< snd cloned]"
      by (simp add: cloned_def clone_clientIds clientIds_in_single)
    with a have "rb_clientId rb \<notin> set (clientIds_in (fst cloned))" by simp
    from received_other[OF this] a
    have kept: "received (fst cloned) (blocks st |` (- {clientId oldBlock})) (rb_clientId rb) =
        Some referencedBlock"
      by (simp add: getBlock_def)
    from ids a have "clientId oldBlock \<notin> set (clientIds_in (fst cloned))" by simp
    from received_other[OF this]
    have gone: "received (fst cloned) (blocks st |` (- {clientId oldBlock})) (clientId oldBlock) =
        None"
      by simp
    from kept gone show "case convertBlockToStatic c st of
           Inl err \<Rightarrow> False
         | Inr e \<Rightarrow>
             dispatched e =
               [ReplaceBlocks [clientId oldBlock]
                  (if name referencedBlock = ''core/template''
                   then fst (cloneBlocks (innerBlocks referencedBlock) (uuidCounter st))
                   else [fst (cloneBlock referencedBlock (uuidCounter st))])] \<and>
             getBlock (store e) (clientId oldBlock) = None \<and>
             reusableBlocks (store e) = reusableBlocks st \<and>
             getBlock (store e) (rb_clientId rb) = Some referencedBlock"
      by (simp add: e getBlock_def clones)
  qed
  have single: "getBlock st c' = Some b \<and> (\<forall>j \<in> set (clientIds_of b). j < uuidCounter st) \<longrightarrow>
        (case convertBlockToReusable getBlocksByClientId [c'] st of
           Inl err \<Rightarrow> False
         | Inr e \<Rightarrow>
             dispatched e =
               [ReceiveReusableBlocks
                  [(\<lparr>rb_id = i, rb_clientId = clientId b,
                     rb_title = ''Untitled Reusable Block''\<rparr>, b)],
                SaveReusableBlock i,
                ReplaceBlocks [c'] [Block (uuidCounter st) ''core/block'' [(''ref'', i)] []],
                ReceiveBlocks [b]] \<and>
             getBlock (store e) (uuidCounter st) =
               Some (Block (uuidCounter st) ''core/block'' [(''ref'', i)] []) \<and>
             getBlock (store e) (clientId b) = Some b \<and>
             getReusableBlock (store e) i =
               Some \<lparr>rb_id = i, rb_clientId = clientId b,
                     rb_title = ''Untitled Reusable Block''\<rparr>)"
  proof
    assume a: "getBlock st c' = Some b \<and> (\<forall>j \<in> set (clientIds_of b). j < uuidCounter st)"
    then have b: "getBlock st c' = Some b" by simp
    define referenceBlock where
      "referenceBlock = Block (uuidCounter st) ''core/block'' [(''ref'', i)] []"
    from a have "uuidCounter st \<notin> set (clientIds_in [b])"
      by (auto simp: clientIds_in_single)
    from received_other[OF this] received_root[of referenceBlock]
    have reference: "received [b] (received [referenceBlock] (blocks st |` (- {c'})))
        (uuidCounter st) = Some referenceBlock"
      by (simp add: referenceBlock_def)
    show "case convertBlockToReusable getBlocksByClientId [c'] st of
           Inl err \<Rightarrow> False
         | Inr e \<Rightarrow>
             dispatched e =
               [ReceiveReusableBlocks
                  [(\<lparr>rb_id = i, rb_clientId = clientId b,
                     rb_title = ''Untitled Reusable Block''\<rparr>, b)],
                SaveReusableBlock i,
                ReplaceBlocks [c'] [Block (uuidCounter st) ''core/block'' [(''ref'', i)] []],
                ReceiveBlocks [b]] \<and>
             getBlock (store e) (uuidCounter st) =
               Some (Block (uuidCounter st) ''core/block'' [(''ref'', i)] []) \<and>
             getBlock (store e) (clientId b) = Some b \<and>
             getReusableBlock (store e) i =
               Some \<lparr>rb_id = i, rb_clientId = clientId b,
                     rb_title = ''Untitled Reusable Block''\<rparr>"
      using received_root[of b] reference
      by (simp add: convertBlockToReusable_single[OF b i refl referenceBlock_def] getBlock_def
          getReusableBlock_def)
         (simp add: referenceBlock_def)
  qed
  have several: "length cs \<noteq> 1 \<and> getBlocksByClientId st cs = Inr bs \<and>
      (\<forall>j \<in> set (clientIds_in bs). j < uuidCounter st) \<longrightarrow>
        (case convertBlockToReusable getBlocksByClientId cs st of
           Inl err \<Rightarrow> False
         | Inr e \<Rightarrow>
             dispatched e =
               [ReceiveBlocks [parsedBlock],
                ReceiveReusableBlocks
                  [(\<lparr>rb_id = i, rb_clientId = uuidCounter st,
                     rb_title = ''Untitled Reusable Block''\<rparr>, parsedBlock)],
                SaveReusableBlock i,
                ReplaceBlocks cs [Block (Suc (uuidCounter st)) ''core/block'' [(''ref'', i)] []],
                ReceiveBlocks [parsedBlock]] \<and>
             innerBlocks parsedBlock = bs \<and>
             getBlock (store e) (Suc (uuidCounter st)) =
               Some (Block (Suc (uuidCounter st)) ''core/block'' [(''ref'', i)] []) \<and>
             getBlock (store e) (uuidCounter st) = Some parsedBlock \<and>
             getReusableBlock (store e) i =
               Some \<lparr>rb_id = i, rb_clientId = uuidCounter st,
                     rb_title = ''Untitled Reusable Block''\<rparr>)"
  proof
    assume a: "length cs \<noteq> 1 \<and> getBlocksByClientId st cs = Inr bs \<and>
      (\<forall>j \<in> set (clientIds_in bs). j < uuidCounter st)"
    then have len: "length cs \<noteq> 1" and sel: "getBlocksByClientId st cs = Inr bs"
      by simp_all
    define referenceBlock where
      "referenceBlock = Block (Suc (uuidCounter st)) ''core/block'' [(''ref'', i)] []"
    define r where
      "r = \<lparr>rb_id = i, rb_clientId = uuidCounter st, rb_title = ''Untitled Reusable Block''\<rparr>"
    have c: "clientId parsedBlock = uuidCounter st" by (simp add: t)
    from a have "\<forall>j \<in> set (clientIds_in bs). j \<noteq> Suc (uuidCounter st)"
      by fastforce
    then have "Suc (uuidCounter st) \<notin> set (clientIds_in [parsedBlock])"
      unfolding clientIds_in_single t by (auto simp: clientIds_in_def)
    from received_other[OF this] received_root[of referenceBlock]
    have reference: "received [parsedBlock]
        (received [referenceBlock] (received [parsedBlock] (blocks st) |` (- set cs)))
        (Suc (uuidCounter st)) = Some referenceBlock"
      by (simp add: referenceBlock_def)
    have wrapper: "received [parsedBlock]
        (received [referenceBlock] (received [parsedBlock] (blocks st) |` (- set cs)))
        (uuidCounter st) = Some parsedBlock"
      using received_root[of parsedBlock] by (simp add: c)
    show "case convertBlockToReusable getBlocksByClientId cs st of
           Inl err \<Rightarrow> False
         | Inr e \<Rightarrow>
             dispatched e =
               [ReceiveBlocks [parsedBlock],
                ReceiveReusableBlocks
                  [(\<lparr>rb_id = i, rb_clientId = uuidCounter st,
                     rb_title = ''Untitled Reusable Block''\<rparr>, parsedBlock)],
                SaveReusableBlock i,
                ReplaceBlocks cs [Block (Suc (uuidCounter st)) ''core/block'' [(''ref'', i)] []],
                ReceiveBlocks [parsedBlock]] \<and>
             innerBlocks parsedBlock = bs \<and>
             getBlock (store e) (Suc (uuidCounter st)) =
               Some (Block (Suc (uuidCounter st)) ''core/block'' [(''ref'', i)] []) \<and>
             getBlock (store e) (uuidCounter st) = Some parsedBlock \<and>
             getReusableBlock (store e) i =
               Some \<lparr>rb_id = i, rb_clientId = uuidCounter st,
                     rb_title = ''Untitled Reusable Block''\<rparr>"
      using reference wrapper
      by (simp add: convertBlockToReusable_several
                      [where getBlocksByClientId = getBlocksByClientId and st = st and cs = cs,
                       OF len sel t i r_def referenceBlock_def]
            getBlock_def getReusableBlock_def)
         (simp add: referenceBlock_def r_def t)
  qed
  from static single several show ?thesis by blast
qed

theorem conversions_dispatch_replace_witness:
  "getBlock test_stores 10 = Some associated_block \<and>
   (case convertBlockToStatic 10 test_stores of
      Inl err \<Rightarrow> False
    | Inr e \<Rightarrow>
        dispatched e =
          [ReplaceBlocks [10]
             [Block 30 ''core/test-block'' [(''name'', JSString ''Big Bird'')]
                [Block 31 ''core/test-block'' [(''name'', JSString ''Oscar the Grouch'')] [],
                 Block 32 ''core/test-block'' [(''name'', JSString ''Cookie Monster'')] []]]] \<and>
        getBlock (store e) 10 = None \<and>
        getReusableBlock (store e) (JSNumber (Finite 123)) = Some my_cool_block \<and>
        getBlock (store e) 20 = Some big_bird) \<and>
   (case convertBlockToReusable failing_selector [20] test_stores of
      Inl err \<Rightarrow> False
    | Inr e \<Rightarrow>
        replacement (dispatched e) =
          [Block 30 ''core/block'' [(''ref'', JSString ''reusable1'')] []] \<and>
        getBlock (store e) 20 = Some big_bird) \<and>
   (case convertBlockToReusable test_selector [21, 22] test_stores of
      Inl err \<Rightarrow> False
    | Inr e \<Rightarrow>
        replacement (dispatched e) =
          [Block 31 ''core/block'' [(''ref'', JSString ''reusable1'')] []] \<and>
        getBlock (store e) 30 = Some (Block 30 ''core/template'' [] [oscar, cookie_monster]))"
proof -
  have i: "JSString ''reusable1'' =
      JSString (''reusable'' @ show_nat (Suc (idCounter test_stores)))"
    by (simp add: test_stores_def show_nat.simps digit_def)
  have t: "Block 30 ''core/template'' [] [oscar, cookie_monster] =
      Block (uuidCounter test_stores) ''core/template'' [] [oscar, cookie_monster]"
    by (simp add: test_stores_def)
  note replace =
    conversions_dispatch_replace
      [OF i t, of 10 associated_block my_cool_block big_bird 20 big_bird failing_selector
          "[21, 22]"]
  have static: "case convertBlockToStatic 10 test_stores of
      Inl err \<Rightarrow> False
    | Inr e \<Rightarrow>
        dispatched e =
          [ReplaceBlocks [10]
             [Block 30 ''core/test-block'' [(''name'', JSString ''Big Bird'')]
                [Block 31 ''core/test-block'' [(''name'', JSString ''Oscar the Grouch'')] [],
                 Block 32 ''core/test-block'' [(''name'', JSString ''Cookie Monster'')] []]]] \<and>
        getBlock (store e) 10 = None \<and>
        getReusableBlock (store e) (JSNumber (Finite 123)) = Some my_cool_block \<and>
        getBlock (store e) 20 = Some big_bird"
    using replace[THEN conjunct1]
    by (simp add: test_stores_def associated_block_def my_cool_block_def big_bird_def
        oscar_def cookie_monster_def getBlock_def getReusableBlock_def attribute_def
        split: sum.splits)
  have single: "case convertBlockToReusable failing_selector [20] test_stores of
      Inl err \<Rightarrow> False
    | Inr e \<Rightarrow>
        replacement (dispatched e) =
          [Block 30 ''core/block'' [(''ref'', JSString ''reusable1'')] []] \<and>
        getBlock (store e) 20 = Some big_bird"
    by (simp add: test_stores_def big_bird_def oscar_def cookie_monster_def
        convertBlockToReusable_def createBlock_def uniqueId_def
        dispatch_def nothing_dispatched_def Let_def getBlock_def
        show_nat.simps digit_def received_def by_clientId_def map_add_def replacement_def)
  have several: "case convertBlockToReusable test_selector [21, 22] test_stores of
      Inl err \<Rightarrow> False
    | Inr e \<Rightarrow>
        replacement (dispatched e) =
          [Block 31 ''core/block'' [(''ref'', JSString ''reusable1'')] []] \<and>
        getBlock (store e) 30 = Some (Block 30 ''core/template'' [] [oscar, cookie_monster])"
    by (simp add: test_stores_def test_selector_def
        convertBlockToReusable_def createBlock_def uniqueId_def
        dispatch_def nothing_dispatched_def Let_def getBlock_def
        show_nat.simps digit_def received_def by_clientId_def map_add_def replacement_def)
  have old: "getBlock test_stores 10 = Some associated_block"
    by (simp add: test_stores_def getBlock_def)
  from old static single several show ?thesis by blast
qed

section \<open>Lookups that find nothing\<close>



section \<open>Synchronising with a template\<close>

lemma synchronize_allocates: "u \<le> snd (synchronizeBlocksWithTemplate bs ts u)"
  by (induction bs ts u rule: synchronizeBlocksWithTemplate.induct)
     (fastforce simp: createBlock_def split: prod.splits)+

lemma synchronize_length: "length (fst (synchronizeBlocksWithTemplate bs ts u)) = length ts"
  by (induction bs ts u rule: synchronizeBlocksWithTemplate.induct)
     (auto simp: createBlock_def split: prod.splits)

lemma synthesized_shapes:
  "bs = [] \<Longrightarrow> map shape_of (fst (synchronizeBlocksWithTemplate bs ts u)) = map template_shape ts"
  by (induction bs ts u rule: synchronizeBlocksWithTemplate.induct)
     (auto simp: createBlock_def split: prod.splits)

lemma synchronize_position:
  "i < length ts \<Longrightarrow>
   (if i < length bs \<and> name (bs ! i) = template_name (ts ! i)
    then fst (synchronizeBlocksWithTemplate bs ts u) ! i = bs ! i
    else shape_of (fst (synchronizeBlocksWithTemplate bs ts u) ! i) = template_shape (ts ! i) \<and>
         u \<le> clientId (fst (synchronizeBlocksWithTemplate bs ts u) ! i) \<and>
         clientId (fst (synchronizeBlocksWithTemplate bs ts u) ! i) <
           snd (synchronizeBlocksWithTemplate bs ts u))"
proof (induction bs ts u arbitrary: i rule: synchronizeBlocksWithTemplate.induct)
  case (1 bs u)
  then show ?case by simp
next
  case (2 n a inner ts u)
  obtain cs u1 where cs: "synchronizeBlocksWithTemplate [] inner u = (cs, u1)"
    by (cases "synchronizeBlocksWithTemplate [] inner u")
  obtain rest u3 where rest: "synchronizeBlocksWithTemplate [] ts (Suc u1) = (rest, u3)"
    by (cases "synchronizeBlocksWithTemplate [] ts (Suc u1)")
  have u1: "u \<le> u1" using synchronize_allocates[of u "[]" inner] cs by simp
  have u3: "Suc u1 \<le> u3" using synchronize_allocates[of "Suc u1" "[]" ts] rest by simp
  have shape: "map shape_of cs = map template_shape inner"
    using synthesized_shapes[of "[]" inner u] cs by simp
  show ?case
  proof (cases i)
    case 0
    with cs rest u1 u3 shape show ?thesis by (simp add: createBlock_def)
  next
    case (Suc j)
    with 2(3) have j: "j < length ts" by simp
    have cb: "(Block u1 n a cs, Suc u1) = createBlock n a cs u1"
      by (simp add: createBlock_def)
    from 2(2)[OF cs[symmetric] cb j]
    have "shape_of (rest ! j) = template_shape (ts ! j) \<and> Suc u1 \<le> clientId (rest ! j) \<and>
          clientId (rest ! j) < u3"
      by (auto simp: rest split: if_splits)
    with Suc cs rest u1 show ?thesis by (simp add: createBlock_def)
  qed
next
  case (3 b bs n a inner ts u)
  show ?case
  proof (cases "name b = n")
    case True
    obtain rest u1 where rest: "synchronizeBlocksWithTemplate bs ts u = (rest, u1)"
      by (cases "synchronizeBlocksWithTemplate bs ts u")
    show ?thesis
    proof (cases i)
      case 0
      with True rest show ?thesis by simp
    next
      case (Suc j)
      with 3(4) have j: "j < length ts" by simp
      from 3(1)[OF True j]
      have "if j < length bs \<and> name (bs ! j) = template_name (ts ! j)
            then rest ! j = bs ! j
            else shape_of (rest ! j) = template_shape (ts ! j) \<and> u \<le> clientId (rest ! j) \<and>
                 clientId (rest ! j) < u1"
        by (auto simp: rest split: if_splits)
      with True Suc rest show ?thesis by (simp split: if_splits)
    qed
  next
    case False
    obtain cs u1 where cs: "synchronizeBlocksWithTemplate [] inner u = (cs, u1)"
      by (cases "synchronizeBlocksWithTemplate [] inner u")
    obtain rest u3 where rest: "synchronizeBlocksWithTemplate bs ts (Suc u1) = (rest, u3)"
      by (cases "synchronizeBlocksWithTemplate bs ts (Suc u1)")
    have u1: "u \<le> u1" using synchronize_allocates[of u "[]" inner] cs by simp
    have u3: "Suc u1 \<le> u3" using synchronize_allocates[of "Suc u1" bs ts] rest by simp
    have shape: "map shape_of cs = map template_shape inner"
      using synthesized_shapes[of "[]" inner u] cs by simp
    show ?thesis
    proof (cases i)
      case 0
      with False cs rest u1 u3 shape show ?thesis by (simp add: createBlock_def)
    next
      case (Suc j)
      with 3(4) have j: "j < length ts" by simp
      have cb: "(Block u1 n a cs, Suc u1) = createBlock n a cs u1"
        by (simp add: createBlock_def)
      from 3(3)[OF False cs[symmetric] cb j]
      have "if j < length bs \<and> name (bs ! j) = template_name (ts ! j)
            then rest ! j = bs ! j
            else shape_of (rest ! j) = template_shape (ts ! j) \<and> Suc u1 \<le> clientId (rest ! j) \<and>
                 clientId (rest ! j) < u3"
        by (auto simp: rest split: if_splits)
      with Suc False cs rest u1 show ?thesis by (simp add: createBlock_def split: if_splits)
    qed
  qed
qed

text \<open>
  C5 (\<open>synchronize\<close>). The result is as long as the template. At a position where the
  block list has a block of the template entry's name, the result has that very block,
  children included; at any other position it has a block created during the call, of the
  entry's name, with the entry's attributes and with inner blocks of the shape of the
  entry's inner template. Blocks beyond the template's length do not appear, and the empty
  template gives the empty list.
\<close>

theorem synchronize_with_template:
  "length (fst (synchronizeBlocksWithTemplate bs ts u)) = length ts \<and>
   (\<forall>i < length ts.
      if i < length bs \<and> name (bs ! i) = template_name (ts ! i)
      then fst (synchronizeBlocksWithTemplate bs ts u) ! i = bs ! i
      else shape_of (fst (synchronizeBlocksWithTemplate bs ts u) ! i) = template_shape (ts ! i) \<and>
           u \<le> clientId (fst (synchronizeBlocksWithTemplate bs ts u) ! i) \<and>
           clientId (fst (synchronizeBlocksWithTemplate bs ts u) ! i) <
             snd (synchronizeBlocksWithTemplate bs ts u)) \<and>
   fst (synchronizeBlocksWithTemplate bs [] u) = []"
  using synchronize_position[of _ ts bs u]
  by (simp add: synchronize_length)

theorem synchronize_with_template_witness:
  "fst (synchronizeBlocksWithTemplate
          [Block 1 ''core/heading'' [] [Block 4 ''core/image'' [] []],
           Block 2 ''core/quote'' [] [], Block 3 ''core/list'' [] []]
          [Template ''core/heading'' [] [Template ''core/paragraph'' [] []],
           Template ''core/columns'' [(''columns'', JSNumber (Finite 2))]
             [Template ''core/column'' [] []]]
          10) =
     [Block 1 ''core/heading'' [] [Block 4 ''core/image'' [] []],
      Block 11 ''core/columns'' [(''columns'', JSNumber (Finite 2))]
        [Block 10 ''core/column'' [] []]]"
  using synchronize_with_template
    [of "[Block 1 ''core/heading'' [] [Block 4 ''core/image'' [] []],
          Block 2 ''core/quote'' [] [], Block 3 ''core/list'' [] []]"
        "[Template ''core/heading'' [] [Template ''core/paragraph'' [] []],
          Template ''core/columns'' [(''columns'', JSNumber (Finite 2))]
            [Template ''core/column'' [] []]]"
        10]
  by (simp add: createBlock_def)

end
